theory Spec2Isabelle
  imports Main "HOL-Library.Sublist"
begin

section \<open>Python values shared by both backends\<close>

text \<open>
  The exceptions the two \<open>configure\<close> methods can end with. \<open>RuntimeError\<close> carries
  the formatted message; \<open>NameError\<close> carries the name of the unbound local variable.
\<close>

datatype py_exception =
    RuntimeError string
  | KeyError string
  | TypeError
  | NameError string
  | AssertionError

text \<open>An input file descriptor: \<open>f["name"]\<close> / \<open>f.name\<close> and \<open>f["file_type"]\<close> / \<open>f.file_type\<close>.\<close>

record edam_file =
  name :: string
  file_type :: string

text \<open>
  The tool object (\<open>self\<close>). Option values are typed as \<open>get_doc\<close> declares them:
  strings, lists of strings (\<open>nextpnr_options\<close> of Nextpnr) and booleans (\<open>fasm2bels\<close>).
  A key that is absent from a map is Python's \<open>None\<close> result of \<open>.get(key)\<close>.
\<close>

record edatool =
  self_name :: string
  self_toplevel :: string
  self_files :: "edam_file list"
  self_flow_config :: "string \<rightharpoonup> string"
  self_tool_options :: "string \<rightharpoonup> string"
  self_list_options :: "string \<rightharpoonup> string list"
  self_bool_options :: "string \<rightharpoonup> bool"

text \<open>Python truthiness of an optional string: \<open>not x\<close> holds for \<open>None\<close> and for \<open>""\<close>.\<close>

definition py_not :: "string option \<Rightarrow> bool" where
  "py_not x = (case x of None \<Rightarrow> True | Some s \<Rightarrow> s = [])"

text \<open>\<open>str(x)\<close> as used by \<open>format\<close> and \<open>%s\<close>.\<close>

definition py_str :: "string option \<Rightarrow> string" where
  "py_str x = (case x of None \<Rightarrow> ''None'' | Some s \<Rightarrow> s)"

text \<open>The substring test \<open>a in b\<close> on two strings.\<close>

definition py_in :: "string \<Rightarrow> string \<Rightarrow> bool" where
  "py_in a b = sublist a b"

section \<open>The command graph (EdaCommands)\<close>

text \<open>
  Modelled from the spec: the class \<open>EdaCommands\<close> of \<open>edalize.utils\<close> is not among the
  sources. Following sections 3 and 4.3 of the specification, a stage is a command (a flat
  token sequence), its outputs and its inputs; the graph keeps the header text, the variable
  lines, the stages in insertion order and the default target. A token is \<open>None\<close> where the
  caller puts Python's \<open>None\<close> into the command list.
\<close>

record stage =
  command :: "string option list"
  outputs :: "string list"
  inputs :: "string list"

record EdaCommands =
  header :: string
  variables :: "string list"
  commands :: "stage list"
  default_target :: "string option"

definition EdaCommands_init :: EdaCommands where
  "EdaCommands_init = \<lparr>header = [], variables = [], commands = [], default_target = None\<rparr>"

definition add :: "string option list \<Rightarrow> string list \<Rightarrow> string list \<Rightarrow> EdaCommands \<Rightarrow> EdaCommands" where
  "add cmd outs ins g = g\<lparr>commands := commands g @ [\<lparr>command = cmd, outputs = outs, inputs = ins\<rparr>]\<rparr>"

definition add_var :: "string \<Rightarrow> EdaCommands \<Rightarrow> EdaCommands" where
  "add_var v g = g\<lparr>variables := variables g @ [v]\<rparr>"

definition add_header :: "string \<Rightarrow> EdaCommands \<Rightarrow> EdaCommands" where
  "add_header h g = g\<lparr>header := header g @ h\<rparr>"

definition set_default_target :: "string \<Rightarrow> EdaCommands \<Rightarrow> EdaCommands" where
  "set_default_target t g = g\<lparr>default_target := Some t\<rparr>"

text \<open>All artifact paths that some registered stage produces.\<close>

definition stage_outputs :: "EdaCommands \<Rightarrow> string set" where
  "stage_outputs g = (\<Union>s \<in> set (commands g). set (outputs s))"

text \<open>Sequencing of computations that may raise.\<close>

definition bind_exc :: "py_exception + 'a \<Rightarrow> ('a \<Rightarrow> py_exception + 'b) \<Rightarrow> py_exception + 'b" where
  "bind_exc m k = (case m of Inl e \<Rightarrow> Inl e | Inr v \<Rightarrow> k v)"

section \<open>Nextpnr.configure\_main\<close>

subsection \<open>The file loop (lines 46--124)\<close>

text \<open>The local variables of the loop. The empty string is the initial, falsy value.\<close>

record roles =
  cst_file :: string
  lpf_file :: string
  pcf_file :: string
  xdc_file :: string
  pdc_file :: string
  qsf_file :: string
  netlist :: string
  unused_files :: "edam_file list"

definition roles_init :: roles where
  "roles_init = \<lparr>cst_file = [], lpf_file = [], pcf_file = [], xdc_file = [], pdc_file = [],
     qsf_file = [], netlist = [], unused_files = []\<rparr>"

text \<open>\<open>"Nextpnr only supports one K. Found {} and {}".format(a, b)\<close>\<close>

definition only_one_msg :: "string \<Rightarrow> string \<Rightarrow> string \<Rightarrow> string" where
  "only_one_msg k a b = ''Nextpnr only supports one '' @ k @ ''. Found '' @ a @ '' and '' @ b"

definition json_mismatch_msg :: "string \<Rightarrow> string" where
  "json_mismatch_msg n =
     ''Nextpnr-fpga_interchange requires fpga-interchange logical netlist instead of JSON, found'' @ n"

definition interchange_mismatch_msg :: "string \<Rightarrow> string" where
  "interchange_mismatch_msg n =
     ''Non-interchange variants of Nextpnr require JSON netlist, found'' @ n"

text \<open>The loop body is five consecutive statements; each is one definition below.\<close>

definition if_cst :: "edam_file \<Rightarrow> roles \<Rightarrow> py_exception + roles" where
  "if_cst f st =
     (if file_type f = ''CST'' then
        (if cst_file st \<noteq> [] then Inl (RuntimeError (only_one_msg ''CST file'' (cst_file st) (name f)))
         else Inr (st\<lparr>cst_file := name f\<rparr>))
      else Inr st)"

text \<open>The message of the LPF check formats \<open>pcf_file\<close>, as line 59 does.\<close>

definition if_lpf :: "edam_file \<Rightarrow> roles \<Rightarrow> py_exception + roles" where
  "if_lpf f st =
     (if file_type f = ''LPF'' then
        (if lpf_file st \<noteq> [] then Inl (RuntimeError (only_one_msg ''LPF file'' (pcf_file st) (name f)))
         else Inr (st\<lparr>lpf_file := name f\<rparr>))
      else Inr st)"

definition if_pdc :: "edam_file \<Rightarrow> roles \<Rightarrow> py_exception + roles" where
  "if_pdc f st =
     (if file_type f = ''PDC'' then
        (if pdc_file st \<noteq> [] then Inl (RuntimeError (only_one_msg ''PDC file'' (pdc_file st) (name f)))
         else Inr (st\<lparr>pdc_file := name f\<rparr>))
      else Inr st)"

definition if_pcf_elif_xdc :: "edam_file \<Rightarrow> roles \<Rightarrow> py_exception + roles" where
  "if_pcf_elif_xdc f st =
     (if file_type f = ''PCF'' then
        (if pcf_file st \<noteq> [] then Inl (RuntimeError (only_one_msg ''PCF file'' (pcf_file st) (name f)))
         else Inr (st\<lparr>pcf_file := name f\<rparr>))
      else if file_type f = ''XDC'' then
        (if xdc_file st \<noteq> [] then Inl (RuntimeError (only_one_msg ''XDC file'' (xdc_file st) (name f)))
         else Inr (st\<lparr>xdc_file := name f\<rparr>))
      else Inr st)"

text \<open>
  The last statement carries the only \<open>else\<close> of the body: a file lands in \<open>unused_files\<close>
  exactly when its type is none of QSF, jsonNetlist and fpgaInterchangeNetlist. The
  fpgaInterchangeNetlist branch checks \<open>netlist\<close> and the architecture and assigns nothing.
\<close>

definition if_qsf_elif_netlist_else :: "bool \<Rightarrow> edam_file \<Rightarrow> roles \<Rightarrow> py_exception + roles" where
  "if_qsf_elif_netlist_else is_interchange f st =
     (if file_type f = ''QSF'' then
        (if qsf_file st \<noteq> [] then Inl (RuntimeError (only_one_msg ''QSF file'' (qsf_file st) (name f)))
         else Inr (st\<lparr>qsf_file := name f\<rparr>))
      else if file_type f = ''jsonNetlist'' then
        (if netlist st \<noteq> [] then Inl (RuntimeError (only_one_msg ''netlist'' (netlist st) (name f)))
         else if is_interchange then Inl (RuntimeError (json_mismatch_msg (name f)))
         else Inr (st\<lparr>netlist := name f\<rparr>))
      else if file_type f = ''fpgaInterchangeNetlist'' then
        (if netlist st \<noteq> [] then Inl (RuntimeError (only_one_msg ''netlist'' (netlist st) (name f)))
         else if \<not> is_interchange then Inl (RuntimeError (interchange_mismatch_msg (name f)))
         else Inr st)
      else Inr (st\<lparr>unused_files := unused_files st @ [f]\<rparr>))"

definition classify_file :: "bool \<Rightarrow> roles \<Rightarrow> edam_file \<Rightarrow> py_exception + roles" where
  "classify_file is_interchange st f =
     bind_exc (if_cst f st) (\<lambda>s1.
     bind_exc (if_lpf f s1) (\<lambda>s2.
     bind_exc (if_pdc f s2) (\<lambda>s3.
     bind_exc (if_pcf_elif_xdc f s3) (\<lambda>s4.
     if_qsf_elif_netlist_else is_interchange f s4))))"

fun classify :: "bool \<Rightarrow> roles \<Rightarrow> edam_file list \<Rightarrow> py_exception + roles" where
  "classify is_interchange st [] = Inr st"
| "classify is_interchange st (f # fs) =
     (case classify_file is_interchange st f of
        Inl e \<Rightarrow> Inl e
      | Inr st' \<Rightarrow> classify is_interchange st' fs)"

subsection \<open>The architecture table (lines 135--173)\<close>

text \<open>What one row of the \<open>if arch == ...\<close> chain yields: \<open>arch_options\<close>, \<open>targets\<close>,
  \<open>constraints\<close> and \<open>output\<close>.\<close>

record arch_row =
  arch_options :: "string list"
  targets :: string
  constraints :: "string list"
  output_opts :: "string list"

definition missing_device_msg :: "string \<Rightarrow> string" where
  "missing_device_msg a = ''Missing required option '' @ [CHR 0x27] @ ''device'' @ [CHR 0x27]
      @ '' for nextpnr-'' @ a"

definition device_row :: "edatool \<Rightarrow> string \<Rightarrow> string \<Rightarrow> string \<Rightarrow> string \<Rightarrow> string \<Rightarrow> py_exception + arch_row" where
  "device_row self a ext cflag cfile oflag =
     (let device = self_tool_options self ''device'' in
      if py_not device then Inl (RuntimeError (missing_device_msg a))
      else Inr \<lparr>arch_options = [''--device'', py_str device],
                targets = self_name self @ ext,
                constraints = (if cfile \<noteq> [] then [cflag, cfile] else []),
                output_opts = [oflag, self_name self @ ext]\<rparr>)"

definition select_arch :: "edatool \<Rightarrow> string \<Rightarrow> roles \<Rightarrow> py_exception + arch_row" where
  "select_arch self arch st =
     (if arch = ''ecp5'' then
        Inr \<lparr>arch_options = [], targets = self_name self @ ''.config'',
             constraints = (if lpf_file st \<noteq> [] then [''--lpf'', lpf_file st] else []),
             output_opts = [''--textcfg'', self_name self @ ''.config'']\<rparr>
      else if arch = ''mistral'' then device_row self ''mistral'' ''.rbf'' ''--qsf'' (qsf_file st) ''--rbf''
      else if arch = ''nexus'' then device_row self ''nexus'' ''.fasm'' ''--pdc'' (pdc_file st) ''--fasm''
      else if arch = ''gowin'' then device_row self ''gowin'' ''.pack'' ''--cst'' (cst_file st) ''--write''
      else if arch = ''fpga_interchange'' then
        Inr \<lparr>arch_options = [], targets = self_name self @ ''.phys'',
             constraints = [''--xdc'', xdc_file st],
             output_opts = [''--phys'', self_name self @ ''.phys'']\<rparr>
      else
        Inr \<lparr>arch_options = [], targets = self_name self @ ''.asc'',
             constraints = (if pcf_file st \<noteq> [] then [''--pcf'', pcf_file st] else []),
             output_opts = [''--asc'', self_name self @ ''.asc'']\<rparr>)"

subsection \<open>The whole method\<close>

text \<open>What a completed run leaves behind: \<open>self.edam["files"]\<close>, \<open>self.commands\<close> and the
  graph handed to \<open>commands.write\<close>.\<close>

record nextpnr_result =
  edam_files :: "edam_file list"
  tool_commands :: "stage list"
  makefile :: EdaCommands

definition chipdb_msg :: string where
  "chipdb_msg = ''Nextpnr-fpga_interchange require chipdb to be specified.''"

definition nextpnr_command :: "edatool \<Rightarrow> string \<Rightarrow> roles \<Rightarrow> arch_row \<Rightarrow> string list" where
  "nextpnr_command self arch st row =
     (let is_interchange = (arch = ''fpga_interchange'');
          chipdb = self_tool_options self ''chipdb'';
          package = self_tool_options self ''package'';
          depends = netlist st;
          c1 = [''nextpnr-'' @ arch, ''-l'', ''next.log''];
          c2 = c1 @ arch_options row
                  @ (case self_list_options self ''nextpnr_options'' of None \<Rightarrow> [] | Some l \<Rightarrow> l);
          c3 = c2 @ constraints row;
          c4 = (if is_interchange then c3 @ [''--netlist'', depends, ''--chipdb'', py_str chipdb]
                else c3 @ [''--json'', depends]);
          c5 = (case package of None \<Rightarrow> c4 | Some p \<Rightarrow> c4 @ [''--package'', p])
      in c5 @ output_opts row)"

text \<open>
  Lines 126--195, once the file loop and the architecture table have raised nothing: the
  new \<open>self.edam["files"]\<close>, the two stages (command line and GUI), the default target and
  the write.
\<close>

definition nextpnr_write :: "edatool \<Rightarrow> string \<Rightarrow> roles \<Rightarrow> arch_row \<Rightarrow> nextpnr_result" where
  "nextpnr_write self arch st row =
     (let files' = unused_files st
            @ [\<lparr>name = self_name self @ ''.asc'', file_type = ''iceboxAscii''\<rparr>];
          cmd = nextpnr_command self arch st row;
          depends = netlist st;
          g1 = add (map Some cmd) [targets row] [depends] EdaCommands_init;
          g2 = add (map Some (cmd @ [''--gui''])) [''build-gui''] [depends] g1;
          g3 = set_default_target (targets row) g2
      in \<lparr>edam_files = files', tool_commands = commands g2, makefile = g3\<rparr>)"

text \<open>The whole method. \<open>self.flow_config["arch"]\<close> is a KeyError when the key is absent.\<close>

definition nextpnr_configure_main :: "edatool \<Rightarrow> py_exception + nextpnr_result" where
  "nextpnr_configure_main self =
     (case self_flow_config self ''arch'' of
        None \<Rightarrow> Inl (KeyError ''arch'')
      | Some arch \<Rightarrow>
          (let is_interchange = (arch = ''fpga_interchange'');
               chipdb = self_tool_options self ''chipdb''
           in if is_interchange \<and> chipdb = None then Inl (RuntimeError chipdb_msg)
              else
                bind_exc (classify is_interchange roles_init (self_files self)) (\<lambda>st.
                bind_exc (select_arch self arch st) (\<lambda>row.
                  Inr (nextpnr_write self arch st row)))))"

section \<open>Symbiflow\<close>

text \<open>
  The Symbiflow methods report violations with \<open>logger.error\<close> and go on, so a run is a
  pair: the list of logged error messages, in order, and how the run ended. The inherited
  \<open>_get_fileset_files\<close> and the Yosys sub-tool are not among the sources; the list
  \<open>src_files\<close> that the former returns and the list \<open>yosys.commands\<close> of the latter are
  parameters. \<open>render_template\<close> writes helper scripts only and returns nothing; it is left
  out.
\<close>

definition dq :: string where
  "dq = [CHR 0x22]"

definition nl :: string where
  "nl = [CHR 0x0A]"

definition archs :: "string list" where
  "archs = [''xilinx'', ''fpga_interchange'']"

definition fpga_interchange_families :: "string list" where
  "fpga_interchange_families = [''xc7'']"

text \<open>\<open>sep.join(xs)\<close>\<close>

fun py_join :: "string \<Rightarrow> string list \<Rightarrow> string" where
  "py_join sep [] = []"
| "py_join sep [x] = x"
| "py_join sep (x # y # ys) = x @ sep @ py_join sep (y # ys)"

text \<open>\<open>x not in self.archs\<close>, where \<open>x\<close> may be \<open>None\<close>.\<close>

definition not_in_archs :: "string option \<Rightarrow> bool" where
  "not_in_archs x = (case x of None \<Rightarrow> True | Some a \<Rightarrow> a \<notin> set archs)"

text \<open>
  The loop of lines 162--165. It returns \<open>target_family\<close> and the loop variable \<open>family\<close> as
  the loop leaves it (\<open>None\<close> for unbound), which line 273 reads.
\<close>

fun family_loop :: "string list \<Rightarrow> string \<Rightarrow> string option \<Rightarrow> string option \<times> string option" where
  "family_loop [] part fam = (None, fam)"
| "family_loop (f # fs) part fam =
     (if py_in f part then (Some f, Some f) else family_loop fs part (Some f))"

text \<open>
  Lines 212--217 and 397--402: three independent \<open>if\<close>s, none with an \<open>else\<close>. \<open>None\<close> is
  the unbound local variable \<open>bitstream_device\<close>.
\<close>

definition bitstream_device_of :: "string \<Rightarrow> string option" where
  "bitstream_device_of part =
     (let b1 = (if py_in ''xc7a'' part then Some ''artix7'' else None);
          b2 = (if py_in ''xc7z'' part then Some ''zynq7'' else b1);
          b3 = (if py_in ''xc7k'' part then Some ''kintex7'' else b2)
      in b3)"

subsection \<open>The two file loops\<close>

record src_roles =
  chipdb :: "string option"
  device :: "string option"
  file_list :: "string list"
  timing_constraints :: "string list"
  pins_constraints :: "string list"
  placement_constraints :: "string list"
  vpr_grid :: "string option"
  rr_graph :: "string option"
  vpr_capnp_schema :: "string option"

definition src_roles_init :: src_roles where
  "src_roles_init = \<lparr>chipdb = None, device = None, file_list = [], timing_constraints = [],
     pins_constraints = [], placement_constraints = [], vpr_grid = None, rr_graph = None,
     vpr_capnp_schema = None\<rparr>"

text \<open>Lines 182--196: one \<open>if\<close>/\<open>elif\<close> chain; a single-valued role keeps the last file.\<close>

definition nextpnr_src_file :: "src_roles \<Rightarrow> edam_file \<Rightarrow> src_roles" where
  "nextpnr_src_file r f =
     (if file_type f = ''bba'' then r\<lparr>chipdb := Some (name f)\<rparr>
      else if file_type f = ''device'' then r\<lparr>device := Some (name f)\<rparr>
      else if file_type f = ''xdc'' then r\<lparr>placement_constraints := placement_constraints r @ [name f]\<rparr>
      else if file_type f = ''RRGraph'' then r\<lparr>rr_graph := Some (name f)\<rparr>
      else if file_type f = ''VPRGrid'' then r\<lparr>vpr_grid := Some (name f)\<rparr>
      else if file_type f = ''capnp'' then r\<lparr>vpr_capnp_schema := Some (name f)\<rparr>
      else r)"

definition nextpnr_src_files :: "edam_file list \<Rightarrow> src_roles" where
  "nextpnr_src_files fs = foldl nextpnr_src_file src_roles_init fs"

text \<open>Lines 369--383: seven independent \<open>if\<close>s.\<close>

definition vpr_src_file :: "src_roles \<Rightarrow> edam_file \<Rightarrow> src_roles" where
  "vpr_src_file r f =
     (let r1 = (if file_type f = ''verilogSource'' then r\<lparr>file_list := file_list r @ [name f]\<rparr> else r);
          r2 = (if file_type f = ''SDC'' then r1\<lparr>timing_constraints := timing_constraints r1 @ [name f]\<rparr> else r1);
          r3 = (if file_type f = ''PCF'' then r2\<lparr>pins_constraints := pins_constraints r2 @ [name f]\<rparr> else r2);
          r4 = (if file_type f = ''xdc'' then r3\<lparr>placement_constraints := placement_constraints r3 @ [name f]\<rparr> else r3);
          r5 = (if file_type f = ''RRGraph'' then r4\<lparr>rr_graph := Some (name f)\<rparr> else r4);
          r6 = (if file_type f = ''VPRGrid'' then r5\<lparr>vpr_grid := Some (name f)\<rparr> else r5);
          r7 = (if file_type f = ''capnp'' then r6\<lparr>vpr_capnp_schema := Some (name f)\<rparr> else r6)
      in r7)"

definition vpr_src_files :: "edam_file list \<Rightarrow> src_roles" where
  "vpr_src_files fs = foldl vpr_src_file src_roles_init fs"

subsection \<open>Logged messages\<close>

definition arch_msg :: "string option \<Rightarrow> string" where
  "arch_msg a = ''Missing or invalid '' @ dq @ ''arch'' @ dq @ '' parameter: '' @ py_str a
      @ '' in '' @ dq @ ''tool_options'' @ dq"

definition package_msg :: string where
  "package_msg = ''Missing required '' @ dq @ ''package'' @ dq @ '' parameter''"

definition part_msg :: string where
  "part_msg = ''Missing required '' @ dq @ ''part'' @ dq @ '' parameter''"

definition family_msg :: "string \<Rightarrow> string" where
  "family_msg p = ''Couldn'' @ [CHR 0x27] @ ''t find family for part: '' @ p
      @ ''. Available families: '' @ py_join '', '' fpga_interchange_families"

definition chipdb_file_msg :: string where
  "chipdb_file_msg = ''Missing required chipdb file''"

definition xdc_msg :: string where
  "xdc_msg = ''Missing required XDC file(s)''"

definition device_file_msg :: string where
  "device_file_msg = ''Missing required '' @ dq @ ''.device'' @ dq @ '' file for '' @ dq
      @ ''fpga_interchange'' @ dq @ '' arch''"

definition fasm2bels_msg :: string where
  "fasm2bels_msg = ''When using fasm2bels, rr_graph, vpr_grid and database root must be provided''"

definition vhdl_msg :: string where
  "vhdl_msg = ''VHDL files are not supported in Yosys''"

definition pnr_msg :: "string option \<Rightarrow> string" where
  "pnr_msg p = ''Unsupported PnR tool: '' @ py_str p"

text \<open>Lines 311--313 (and 426--428, 449--451): the check of an enabled fasm2bels sub-flow.\<close>

definition fasm2bels_log :: "src_roles \<Rightarrow> string option \<Rightarrow> string list" where
  "fasm2bels_log r dbroot =
     (if rr_graph r = None \<or> vpr_grid r = None \<or> dbroot = None then [fasm2bels_msg] else [])"

definition get_fasm2bels :: "edatool \<Rightarrow> bool" where
  "get_fasm2bels self = (case self_bool_options self ''fasm2bels'' of None \<Rightarrow> False | Some b \<Rightarrow> b)"

subsection \<open>configure\_nextpnr: the stage chains\<close>

definition schema_guard :: string where
  "schema_guard = ''ifndef INTERCHANGE_SCHEMA_PATH'' @ nl
     @ ''$(error Environment variable INTERCHANGE_SCHEMA_PATH was not found. It should be set to <fpga-interchange-schema path>/interchange)'' @ nl
     @ ''endif'' @ nl"

definition rapidwright_guard :: string where
  "rapidwright_guard = ''ifndef RAPIDWRIGHT_PATH'' @ nl
     @ ''$(error Environment variable RAPIDWRIGHT_PATH was not found. It should be set to <rapid wright path>)'' @ nl
     @ ''endif'' @ nl"

text \<open>
  Lines 229--290, the \<open>fpga_interchange\<close> branch. \<open>package\<close> is the value left by line 210,
  \<open>xdcs\<close> the flag list of lines 220--222, \<open>family\<close> the loop variable of line 162.
\<close>

definition interchange_chain ::
  "edatool \<Rightarrow> src_roles \<Rightarrow> string \<Rightarrow> string option \<Rightarrow> string list \<Rightarrow> string option \<Rightarrow> string
     \<Rightarrow> EdaCommands \<Rightarrow> py_exception + EdaCommands" where
  "interchange_chain self r arch package xdcs family nextpnr_options g =
     (if length xdcs \<noteq> 2 then Inl AssertionError
      else
        (let schema_dir = self_tool_options self ''schema_dir'';
             g1 = (if schema_dir = None then add_header schema_guard g else g);
             g2 = add_header rapidwright_guard g1;
             schema = (case schema_dir of None \<Rightarrow> ''$(INTERCHANGE_SCHEMA_PATH)'' | Some d \<Rightarrow> d);
             n = self_name self;
             g3 = add (map Some [''python'', ''-m'', ''fpga_interchange.yosys_json'', ''--schema_dir'', schema, ''--device'']
                       @ [device r] @ map Some [''--top'', self_toplevel self, n @ ''.json'', n @ ''.netlist''])
                      [n @ ''.netlist''] [n @ ''.json''] g2;
             g4 = add (map Some [''nextpnr-'' @ arch, ''--chipdb''] @ [chipdb r] @ [Some ''--package'', package]
                       @ map Some xdcs
                       @ map Some [''--netlist'', n @ ''.netlist'', ''--write'', n @ ''.routed.json'',
                                   ''--phys'', n @ ''.phys'', nextpnr_options])
                      [n @ ''.phys''] [n @ ''.netlist''] g3
         in case family of
              None \<Rightarrow> Inl (NameError ''family'')
            | Some fam \<Rightarrow>
               (let g5 = add (map Some [''python'', ''-m'', ''fpga_interchange.fasm_generator'', ''--schema_dir'', schema,
                                        ''--family'', fam]
                              @ [device r] @ map Some [n @ ''.netlist'', n @ ''.phys'', n @ ''.fasm''])
                             [n @ ''.fasm''] [n @ ''.phys''] g4;
                    g6 = add (map Some [''RAPIDWRIGHT_PATH=${RAPIDWRIGHT_PATH} ${RAPIDWRIGHT_PATH}/scripts/invoke_rapidwright.sh com.xilinx.rapidwright.interchange.PhysicalNetlistToDcp'',
                                        n @ ''.netlist'', n @ ''.phys'', xdcs ! 1, n @ ''.dcp''])
                             [n @ ''.dcp''] [n @ ''.fasm''] g5;
                    g7 = add [Some ''bash vivado.sh''] [n @ ''.timing''] [n @ ''.dcp''] g6
                in Inr g7)))"

text \<open>Lines 292--300, every other value of \<open>arch\<close>; \<open>"nextpnr-" + None\<close> is a TypeError.\<close>

definition direct_chain ::
  "edatool \<Rightarrow> src_roles \<Rightarrow> string option \<Rightarrow> string list \<Rightarrow> string \<Rightarrow> EdaCommands
     \<Rightarrow> py_exception + EdaCommands" where
  "direct_chain self r arch xdcs nextpnr_options g =
     (case arch of
        None \<Rightarrow> Inl TypeError
      | Some a \<Rightarrow>
         (let n = self_name self
          in Inr (add (map Some [''nextpnr-'' @ a, ''--chipdb''] @ [chipdb r] @ map Some xdcs
                       @ map Some [''--json'', n @ ''.json'', ''--write'', n @ ''.routed.json'',
                                   ''--fasm'', n @ ''.fasm'', ''--log'', ''nextpnr.log'', nextpnr_options])
                      [n @ ''.fasm''] [n @ ''.json''] g)))"

text \<open>Lines 302--306: the first read of \<open>bitstream_device\<close>.\<close>

definition bitstream_stage ::
  "edatool \<Rightarrow> string option \<Rightarrow> string \<Rightarrow> EdaCommands \<Rightarrow> py_exception + EdaCommands" where
  "bitstream_stage self bitstream_device partname g =
     (case bitstream_device of
        None \<Rightarrow> Inl (NameError ''bitstream_device'')
      | Some bd \<Rightarrow>
         (let n = self_name self
          in Inr (add (map Some [''symbiflow_write_bitstream'', ''-d'', bd, ''-f'', n @ ''.fasm'',
                                 ''-p'', partname, ''-b'', n @ ''.bit''])
                      [n @ ''.bit''] [n @ ''.fasm''] g)))"

text \<open>
  Lines 328--347, the two stages of the fasm2bels sub-flow; \<open>dbroot + ...\<close> with \<open>dbroot\<close>
  \<open>None\<close> is a TypeError.
\<close>

definition nextpnr_fasm2bels_stages ::
  "edatool \<Rightarrow> src_roles \<Rightarrow> string option \<Rightarrow> string \<Rightarrow> string \<Rightarrow> EdaCommands
     \<Rightarrow> py_exception + EdaCommands" where
  "nextpnr_fasm2bels_stages self r dbroot bd partname g =
     (case dbroot of
        None \<Rightarrow> Inl TypeError
      | Some d \<Rightarrow>
         (let t = self_toplevel self;
              g1 = add (map Some [''python -m fasm2bels'', ''--db_root'', d @ ''/'' @ bd,
                                  ''--part'', partname, ''--bitread bitread'',
                                  ''--bit_file'', t @ ''.bit'', ''--fasm_file'', t @ ''.bit.fasm'',
                                  ''--connection_database channels.db'', ''--rr_graph'']
                        @ [rr_graph r] @ map Some [''--route_file'', t @ ''.route'', ''--vpr_grid_map'']
                        @ [vpr_grid r] @ [Some ''--vpr_capnp_schema_dir'', vpr_capnp_schema r]
                        @ map Some [''--verilog_file'', t @ ''.bit.v'', ''--xdc_file'', t @ ''.bit.xdc'',
                                    ''&& rm channels.db''])
                       [t @ ''.bit.v''] [] g;
              g2 = add [Some ''bash vivado.sh''] [''timing_summary.rpt''] [t @ ''.bit.v''] g1
          in Inr g2))"

subsection \<open>configure\_nextpnr\<close>

text \<open>Lines 220--222: two tokens for every placement-constraint file.\<close>

definition xdc_flags :: "string list \<Rightarrow> string list" where
  "xdc_flags pcs = concat (map (\<lambda>x. [''--xdc'', x]) pcs)"

text \<open>Lines 147--159: the three option checks; each only logs.\<close>

definition nextpnr_option_log :: "edatool \<Rightarrow> string list" where
  "nextpnr_option_log self =
     (let arch = self_tool_options self ''arch'';
          package = self_tool_options self ''package'';
          part = self_tool_options self ''part''
      in (if not_in_archs arch then [arch_msg arch] else [])
         @ (if py_not package then [package_msg] else [])
         @ (if py_not part then [part_msg] else []))"

text \<open>Lines 167--172 and 198--205: the family check and the three file checks; each only logs.\<close>

definition nextpnr_file_log :: "edatool \<Rightarrow> string \<Rightarrow> src_roles \<Rightarrow> string list" where
  "nextpnr_file_log self p r =
     (let is_interchange = (self_tool_options self ''arch'' = Some ''fpga_interchange'');
          target_family = fst (family_loop fpga_interchange_families p None)
      in (if target_family = None \<and> is_interchange then [family_msg p] else [])
         @ (if py_not (chipdb r) then [chipdb_file_msg] else [])
         @ (if placement_constraints r = [] then [xdc_msg] else [])
         @ (if device r = None \<and> is_interchange then [device_file_msg] else []))"

text \<open>
  Lines 207--306, for \<open>part\<close> and \<open>package\<close> both strings: the place-and-route chain of the
  selected architecture, then the bitstream stage.
\<close>

definition nextpnr_main_chain ::
  "edatool \<Rightarrow> src_roles \<Rightarrow> string \<Rightarrow> string \<Rightarrow> stage list \<Rightarrow> py_exception + EdaCommands" where
  "nextpnr_main_chain self r p pk yosys_commands =
     (let arch = self_tool_options self ''arch'';
          is_interchange = (arch = Some ''fpga_interchange'');
          family = snd (family_loop fpga_interchange_families p None);
          nextpnr_options = (case self_tool_options self ''nextpnr_options'' of None \<Rightarrow> [] | Some s \<Rightarrow> s);
          partname = p @ pk;
          package' = (if is_interchange then Some (takeWhile (\<lambda>c. c \<noteq> CHR ''-'') pk) else None);
          bitstream_device = bitstream_device_of p;
          xdcs = xdc_flags (placement_constraints r);
          g0 = EdaCommands_init\<lparr>commands := yosys_commands\<rparr>;
          chain = (if is_interchange
                   then interchange_chain self r ''fpga_interchange'' package' xdcs family nextpnr_options g0
                   else direct_chain self r arch xdcs nextpnr_options g0)
      in bind_exc chain (bitstream_stage self bitstream_device partname))"

text \<open>
  Lines 308--350: the optional fasm2bels sub-flow, the default target and the write. The
  bitstream stage has read \<open>bitstream_device\<close> before, so the variable is bound here and
  \<open>py_str\<close> of it is its value.
\<close>

definition nextpnr_finish ::
  "edatool \<Rightarrow> src_roles \<Rightarrow> string \<Rightarrow> string \<Rightarrow> EdaCommands \<Rightarrow> string list \<times> (py_exception + EdaCommands)" where
  "nextpnr_finish self r p pk g =
     (let fasm2bels = get_fasm2bels self;
          dbroot = self_tool_options self ''dbroot''
      in if fasm2bels then
           (case nextpnr_fasm2bels_stages self r dbroot (py_str (bitstream_device_of p)) (p @ pk) g of
              Inl e \<Rightarrow> (fasm2bels_log r dbroot, Inl e)
            | Inr g' \<Rightarrow> (fasm2bels_log r dbroot, Inr (set_default_target ''timing_summary.rpt'' g')))
         else ([], Inr (set_default_target (self_name self @ ''.bit'') g)))"

text \<open>
  The whole method. \<open>family in part\<close> (line 163) and \<open>part + package\<close> (line 208) are
  TypeErrors when \<open>part\<close>, respectively \<open>package\<close>, is \<open>None\<close>.
\<close>

definition configure_nextpnr ::
  "edatool \<Rightarrow> edam_file list \<Rightarrow> stage list \<Rightarrow> string list \<times> (py_exception + EdaCommands)" where
  "configure_nextpnr self src_files yosys_commands =
     (let log3 = nextpnr_option_log self
      in case self_tool_options self ''part'' of
           None \<Rightarrow> (log3, Inl TypeError)
         | Some p \<Rightarrow>
            (let r = nextpnr_src_files src_files;
                 log7 = log3 @ nextpnr_file_log self p r
             in case self_tool_options self ''package'' of
                  None \<Rightarrow> (log7, Inl TypeError)
                | Some pk \<Rightarrow>
                   (case nextpnr_main_chain self r p pk yosys_commands of
                      Inl e \<Rightarrow> (log7, Inl e)
                    | Inr g \<Rightarrow> (log7 @ fst (nextpnr_finish self r p pk g),
                                snd (nextpnr_finish self r p pk g)))))"

subsection \<open>configure\_vpr\<close>

text \<open>
  The stage chains of lines 468--574. They are entered once the vendor branch has bound
  its variables: \<open>bd\<close> is \<open>bitstream_device\<close>, \<open>partname\<close> is \<open>None\<close> for Python's \<open>None\<close>
  (which the quicklogic branch copies from an absent \<open>package\<close>), \<open>part\<close> is the possibly
  rewritten part.
\<close>

definition vpr_options_of :: "edatool \<Rightarrow> string list" where
  "vpr_options_of self =
     (let vo = self_tool_options self ''vpr_options''
      in if py_not vo then [] else [''--additional_vpr_options'', dq @ py_str vo @ dq])"

definition pcf_opts_of :: "src_roles \<Rightarrow> string list" where
  "pcf_opts_of r = (if pins_constraints r \<noteq> [] then ''-p'' # pins_constraints r else [])"

definition sdc_opts_of :: "src_roles \<Rightarrow> string list" where
  "sdc_opts_of r = (if timing_constraints r \<noteq> [] then ''-s'' # timing_constraints r else [])"

definition xdc_opts_of :: "src_roles \<Rightarrow> string list" where
  "xdc_opts_of r = (if placement_constraints r \<noteq> [] then ''-x'' # placement_constraints r else [])"

text \<open>Lines 468--520: the two variables and the six stages from synthesis to bitstream.\<close>

definition vpr_main_chain ::
  "edatool \<Rightarrow> src_roles \<Rightarrow> string option \<Rightarrow> string \<Rightarrow> string option \<Rightarrow> string \<Rightarrow> string \<Rightarrow> EdaCommands" where
  "vpr_main_chain self r vendor bd partname part device_suffix =
     (let vpr_options = vpr_options_of self;
          pcf_opts = pcf_opts_of r;
          sdc_opts = sdc_opts_of r;
          xdc_opts = xdc_opts_of r;
          t = self_toplevel self;
          g1 = add_var (''export EDALIZE_VENDOR='' @ py_str vendor) EdaCommands_init;
          g2 = add_var (''export EDALIZE_PART='' @ part) g1;
          quicklogic = (vendor = Some ''quicklogic'');
          g3 = add (map Some ([''symbiflow_synth'', ''-t'', t, ''-v''] @ file_list r @ [''-d'', bd]
                              @ (if pcf_opts \<noteq> [] then pcf_opts else [''-p'']) @ [''-P''])
                    @ [partname]
                    @ map Some ((if quicklogic \<and> pins_constraints r \<noteq> [] then pcf_opts else []) @ xdc_opts))
                   [t @ ''.eblif''] [] g2;
          eblif_opt = [''-e'', t @ ''.eblif''];
          device_opt = [''-d'', part @ ''_'' @ device_suffix];
          g4 = add (map Some ([''symbiflow_pack''] @ eblif_opt @ device_opt @ sdc_opts @ vpr_options))
                   [t @ ''.net''] [t @ ''.eblif''] g3;
          g5 = add (map Some ([''symbiflow_place''] @ eblif_opt @ device_opt @ [''-n'', t @ ''.net'', ''-P''])
                    @ [partname] @ map Some (sdc_opts @ pcf_opts @ vpr_options))
                   [t @ ''.place''] [t @ ''.net''] g4;
          g6 = add (map Some ([''symbiflow_route''] @ eblif_opt @ device_opt @ sdc_opts @ vpr_options))
                   [t @ ''.route''] [t @ ''.place''] g5;
          g7 = add (map Some ([''symbiflow_write_fasm''] @ eblif_opt @ device_opt @ sdc_opts @ vpr_options))
                   [t @ ''.fasm''] [t @ ''.route''] g6;
          g8 = add (map Some [''symbiflow_write_bitstream'', ''-d'', bd, ''-f'', t @ ''.fasm'',
                              (if vendor = Some ''xilinx'' then ''-p'' else ''-P'')]
                    @ [partname] @ map Some [''-b'', t @ ''.bit''])
                   [t @ ''.bit''] [t @ ''.fasm''] g7
      in g8)"

text \<open>
  Lines 522--545: the two stages of the fasm2bels sub-flow; \<open>dbroot + ...\<close> with \<open>dbroot\<close>
  \<open>None\<close> is a TypeError.
\<close>

definition vpr_fasm2bels_stages ::
  "edatool \<Rightarrow> src_roles \<Rightarrow> string option \<Rightarrow> string \<Rightarrow> string option \<Rightarrow> EdaCommands
     \<Rightarrow> py_exception + EdaCommands" where
  "vpr_fasm2bels_stages self r dbroot bd partname g =
     (case dbroot of
        None \<Rightarrow> Inl TypeError
      | Some d \<Rightarrow>
         (let t = self_toplevel self;
              h1 = add (map Some [''python -m fasm2bels'', ''--db_root'', d @ ''/'' @ bd, ''--part'']
                        @ [partname]
                        @ map Some [''--bitread bitread'', ''--bit_file'', t @ ''.bit'',
                                    ''--fasm_file'', t @ ''.bit.fasm'', ''--eblif'', t @ ''.eblif'',
                                    ''--connection_database channels.db'', ''--rr_graph'']
                        @ [rr_graph r] @ map Some [''--route_file'', t @ ''.route'', ''--vpr_grid_map'']
                        @ [vpr_grid r] @ [Some ''--vpr_capnp_schema_dir'', vpr_capnp_schema r]
                        @ map Some ((if length (pins_constraints r) > 0
                                     then [''--pcf '' @ py_join '' '' (pins_constraints r)] else [])
                                    @ [''--verilog_file'', t @ ''.bit.v'', ''--xdc_file'', t @ ''.bit.xdc'',
                                       ''&& rm channels.db'']))
                       [t @ ''.bit.v''] [] g;
              h2 = add [Some ''bash vivado.sh''] [''timing_summary.rpt''] [t @ ''.bit.v''] h1
          in Inr h2))"

text \<open>Lines 548--574: the four extra stages of the quicklogic vendor.\<close>

definition quicklogic_stages :: "edatool \<Rightarrow> EdaCommands \<Rightarrow> EdaCommands" where
  "quicklogic_stages self g =
     (let t = self_toplevel self;
          q1 = add (map Some [''symbiflow_write_binary'', t @ ''.bit'', t @ ''.bin''])
                   [t @ ''.bin''] [t @ ''.bit''] g;
          q2 = add (map Some [''symbiflow_write_bitheader'', t @ ''.bit'', t @ ''.h''])
                   [t @ ''.h''] [t @ ''.bit''] q1;
          q3 = add (map Some [''symbiflow_write_openocd'', t @ ''.bit'', t @ ''.openocd.cfg''])
                   [t @ ''.openocd.cfg''] [t @ ''.bit''] q2;
          q4 = add (map Some [''symbiflow_write_jlink'', t @ ''.bit'', t @ ''.jlink''])
                   [t @ ''.jlink''] [t @ ''.bit''] q3
      in q4)"

text \<open>Lines 576--585: the default target of the quicklogic vendor, three paths in one string.\<close>

definition quicklogic_target :: "edatool \<Rightarrow> string" where
  "quicklogic_target self =
     self_toplevel self @ ''.bin'' @ '' '' @ self_toplevel self @ ''.h'' @ '' ''
       @ self_toplevel self @ ''.openocd.cfg''"

text \<open>
  Lines 416--588. \<open>bitstream_device\<close> is \<open>None\<close> when the variable is unbound; its first
  read is in the synthesis command (line 478). The fasm2bels check runs twice (lines 426
  and 449), before any stage is built.
\<close>

definition vpr_stages ::
  "edatool \<Rightarrow> src_roles \<Rightarrow> string option \<Rightarrow> string option \<Rightarrow> string option \<Rightarrow> string \<Rightarrow> string
     \<Rightarrow> string list \<times> (py_exception + EdaCommands)" where
  "vpr_stages self r vendor bitstream_device partname part device_suffix =
     (let fasm2bels = get_fasm2bels self;
          dbroot = self_tool_options self ''dbroot'';
          lg = (if fasm2bels then fasm2bels_log r dbroot @ fasm2bels_log r dbroot else [])
      in case bitstream_device of
           None \<Rightarrow> (lg, Inl (NameError ''bitstream_device''))
         | Some bd \<Rightarrow>
            (let g8 = vpr_main_chain self r vendor bd partname part device_suffix;
                 sub = (if fasm2bels
                        then bind_exc (vpr_fasm2bels_stages self r dbroot bd partname g8)
                               (\<lambda>h. Inr (h, ''timing_summary.rpt''))
                        else Inr (g8, self_toplevel self @ ''.bit''))
             in case sub of
                  Inl e \<Rightarrow> (lg, Inl e)
                | Inr (g9, last_targets) \<Rightarrow>
                   (if vendor = Some ''quicklogic''
                    then (lg, Inr (set_default_target (quicklogic_target self) (quicklogic_stages self g9)))
                    else (lg, Inr (set_default_target last_targets g9)))))"

text \<open>Lines 355--394: the VHDL check and the two option checks; each only logs.\<close>

definition vpr_option_log :: "edatool \<Rightarrow> edam_file list \<Rightarrow> string list" where
  "vpr_option_log self src_files =
     (let has_vhdl = (''vhdlSource'' \<in> set (map file_type src_files));
          has_vhdl2008 = (''vhdlSource-2008'' \<in> set (map file_type src_files))
      in (if has_vhdl \<or> has_vhdl2008 then [vhdl_msg] else [])
         @ (if py_not (self_tool_options self ''part'') then [part_msg] else [])
         @ (if py_not (self_tool_options self ''package'') then [package_msg] else []))"

text \<open>
  The whole method. With a vendor other than xilinx and quicklogic nothing is bound: the
  first read of \<open>partname\<close> (line 431, after the fasm2bels check has logged) or of
  \<open>bitstream_device\<close> (line 478) raises.
\<close>

definition configure_vpr ::
  "edatool \<Rightarrow> edam_file list \<Rightarrow> string list \<times> (py_exception + EdaCommands)" where
  "configure_vpr self src_files =
     (let log3 = vpr_option_log self src_files;
          r = vpr_src_files src_files;
          part = self_tool_options self ''part'';
          package = self_tool_options self ''package'';
          vendor = self_tool_options self ''vendor''
      in if vendor = Some ''xilinx'' then
           (case part of
              None \<Rightarrow> (log3, Inl TypeError)
            | Some p \<Rightarrow>
               (case package of
                  None \<Rightarrow> (log3, Inl TypeError)
                | Some pk \<Rightarrow>
                   (let res = vpr_stages self r vendor (bitstream_device_of p) (Some (p @ pk))
                                (if p = ''xc7a35t'' then ''xc7a50t'' else p) ''test''
                    in (log3 @ fst res, snd res))))
         else if vendor = Some ''quicklogic'' then
           (case part of
              None \<Rightarrow> (log3, Inl TypeError)
            | Some p \<Rightarrow>
               (let res = vpr_stages self r vendor (Some (p @ ''_'' @ ''wlcsp'')) package p ''wlcsp''
                in (log3 @ fst res, snd res)))
         else if get_fasm2bels self then
           (log3 @ fasm2bels_log r (self_tool_options self ''dbroot''), Inl (NameError ''partname''))
         else (log3, Inl (NameError ''bitstream_device'')))"

subsection \<open>Symbiflow.configure\_main\<close>

text \<open>Lines 590--598. \<open>Inr None\<close> is a return without any call of \<open>commands.write\<close>.\<close>

definition symbiflow_configure_main ::
  "edatool \<Rightarrow> edam_file list \<Rightarrow> stage list \<Rightarrow> string list \<times> (py_exception + EdaCommands option)" where
  "symbiflow_configure_main self src_files yosys_commands =
     (let pnr = self_tool_options self ''pnr''
      in if pnr = Some ''nextpnr'' then
           (fst (configure_nextpnr self src_files yosys_commands),
            map_sum id Some (snd (configure_nextpnr self src_files yosys_commands)))
         else if pnr = Some ''vtr'' \<or> pnr = Some ''vpr'' then
           (fst (configure_vpr self src_files), map_sum id Some (snd (configure_vpr self src_files)))
         else ([pnr_msg pnr], Inr None))"

section \<open>Observations used in the statements\<close>

text \<open>
  The local variable that the file loop of Nextpnr fills for a type tag, the word the
  duplicate message uses for it, and the tags whose duplicate check compares and formats
  the variable it fills. LPF (whose message formats \<open>pcf_file\<close>) and
  fpgaInterchangeNetlist (which fills nothing) are not among them; jsonNetlist is one of
  them on every architecture but \<open>fpga_interchange\<close>, where it is rejected at once.
\<close>

definition role_slot :: "string \<Rightarrow> roles \<Rightarrow> string" where
  "role_slot t st =
     (if t = ''CST'' then cst_file st
      else if t = ''PDC'' then pdc_file st
      else if t = ''PCF'' then pcf_file st
      else if t = ''XDC'' then xdc_file st
      else if t = ''QSF'' then qsf_file st
      else if t = ''jsonNetlist'' then netlist st
      else [])"

definition role_kind :: "string \<Rightarrow> string" where
  "role_kind t = (if t = ''jsonNetlist'' then ''netlist'' else t @ '' file'')"

definition checked_role :: "bool \<Rightarrow> string \<Rightarrow> bool" where
  "checked_role is_interchange t =
     (t = ''CST'' \<or> t = ''PDC'' \<or> t = ''PCF'' \<or> t = ''XDC'' \<or> t = ''QSF''
      \<or> (t = ''jsonNetlist'' \<and> \<not> is_interchange))"

text \<open>
  A netlist file whose format the architecture rejects (lines 103 and 117), and the message
  of that rejection.
\<close>

definition mismatched :: "bool \<Rightarrow> edam_file \<Rightarrow> bool" where
  "mismatched is_interchange f =
     ((is_interchange \<and> file_type f = ''jsonNetlist'')
      \<or> (\<not> is_interchange \<and> file_type f = ''fpgaInterchangeNetlist''))"

definition mismatch_msg :: "bool \<Rightarrow> string \<Rightarrow> string" where
  "mismatch_msg is_interchange n =
     (if is_interchange then json_mismatch_msg n else interchange_mismatch_msg n)"

section \<open>Concrete inputs\<close>

definition c1_files :: "edam_file list" where
  "c1_files = [\<lparr>name = ''top.xdc'', file_type = ''XDC''\<rparr>,
               \<lparr>name = ''top.netlist'', file_type = ''fpgaInterchangeNetlist''\<rparr>]"

text \<open>A tool object with the design name \<open>top\<close> and the given string options.\<close>

definition symbiflow_self :: "(string \<rightharpoonup> string) \<Rightarrow> edatool" where
  "symbiflow_self opts = \<lparr>self_name = ''top'', self_toplevel = ''top'', self_files = [],
     self_flow_config = Map.empty, self_tool_options = opts,
     self_list_options = Map.empty, self_bool_options = Map.empty\<rparr>"

definition xilinx_options :: "string \<rightharpoonup> string" where
  "xilinx_options = [''arch'' \<mapsto> ''xilinx'', ''vendor'' \<mapsto> ''xilinx'', ''part'' \<mapsto> ''xc7a35t'',
     ''package'' \<mapsto> ''csg324-1'']"

definition interchange_options :: "string \<rightharpoonup> string" where
  "interchange_options =
     [''arch'' \<mapsto> ''fpga_interchange'', ''part'' \<mapsto> ''xc7a35t'', ''package'' \<mapsto> ''csg324-1'']"

definition c3_src_files :: "edam_file list" where
  "c3_src_files = [\<lparr>name = ''a.bba'', file_type = ''bba''\<rparr>,
                   \<lparr>name = ''b.bba'', file_type = ''bba''\<rparr>,
                   \<lparr>name = ''top.xdc'', file_type = ''xdc''\<rparr>]"

definition cst_a :: edam_file where
  "cst_a = \<lparr>name = ''a.cst'', file_type = ''CST''\<rparr>"

definition cst_b :: edam_file where
  "cst_b = \<lparr>name = ''b.cst'', file_type = ''CST''\<rparr>"

text \<open>
  A Nextpnr tool object with the design name \<open>top\<close>, the architecture, the string
  options and the files given.
\<close>

definition nextpnr_self :: "string \<Rightarrow> (string \<rightharpoonup> string) \<Rightarrow> edam_file list \<Rightarrow> edatool" where
  "nextpnr_self a opts fs = \<lparr>self_name = ''top'', self_toplevel = ''top'', self_files = fs,
     self_flow_config = [''arch'' \<mapsto> a], self_tool_options = opts,
     self_list_options = Map.empty, self_bool_options = Map.empty\<rparr>"

definition c8_self :: edatool where
  "c8_self = nextpnr_self ''fpga_interchange'' Map.empty [\<lparr>name = ''top.json'', file_type = ''jsonNetlist''\<rparr>]"

definition c8_self_chipdb :: edatool where
  "c8_self_chipdb = nextpnr_self ''fpga_interchange'' [''chipdb'' \<mapsto> ''chip.bin'']
      [\<lparr>name = ''top.json'', file_type = ''jsonNetlist''\<rparr>]"

definition c4_self :: edatool where
  "c4_self = nextpnr_self ''no_such_arch'' Map.empty []"

definition c7_self :: edatool where
  "c7_self = nextpnr_self ''gowin'' Map.empty []"

definition no_package_options :: "string \<rightharpoonup> string" where
  "no_package_options = [''arch'' \<mapsto> ''xilinx'', ''part'' \<mapsto> ''xc7a35t'']"


definition quicklogic_options :: "string \<rightharpoonup> string" where
  "quicklogic_options = [''vendor'' \<mapsto> ''quicklogic'', ''part'' \<mapsto> ''ql-eos-s3'', ''package'' \<mapsto> ''PD64'']"

definition c5_self :: edatool where
  "c5_self = symbiflow_self quicklogic_options"

definition c6_self :: edatool where
  "c6_self = (symbiflow_self (xilinx_options(''dbroot'' \<mapsto> ''/opt/prjxray-db'')))
       \<lparr>self_bool_options := [''fasm2bels'' \<mapsto> True]\<rparr>"

definition c6_no_dbroot :: edatool where
  "c6_no_dbroot = (symbiflow_self xilinx_options)\<lparr>self_bool_options := [''fasm2bels'' \<mapsto> True]\<rparr>"


definition interchange_no_package_options :: "string \<rightharpoonup> string" where
  "interchange_no_package_options = [''arch'' \<mapsto> ''fpga_interchange'', ''part'' \<mapsto> ''xc7a35t'']"


section \<open>The file loop of Nextpnr\<close>

lemmas if_defs = if_cst_def if_lpf_def if_pdc_def if_pcf_elif_xdc_def if_qsf_elif_netlist_else_def

lemma bind_exc_simps [simp]: "bind_exc (Inl e) k = Inl e" "bind_exc (Inr v) k = k v"
  by (simp_all add: bind_exc_def)

lemma classify_file_CST:
  "file_type f = ''CST'' \<Longrightarrow> classify_file ic st f =
     (if cst_file st \<noteq> [] then Inl (RuntimeError (only_one_msg ''CST file'' (cst_file st) (name f)))
      else Inr (st\<lparr>cst_file := name f, unused_files := unused_files st @ [f]\<rparr>))"
  by (simp add: classify_file_def if_defs)

lemma classify_file_LPF:
  "file_type f = ''LPF'' \<Longrightarrow> classify_file ic st f =
     (if lpf_file st \<noteq> [] then Inl (RuntimeError (only_one_msg ''LPF file'' (pcf_file st) (name f)))
      else Inr (st\<lparr>lpf_file := name f, unused_files := unused_files st @ [f]\<rparr>))"
  by (simp add: classify_file_def if_defs)

lemma classify_file_PDC:
  "file_type f = ''PDC'' \<Longrightarrow> classify_file ic st f =
     (if pdc_file st \<noteq> [] then Inl (RuntimeError (only_one_msg ''PDC file'' (pdc_file st) (name f)))
      else Inr (st\<lparr>pdc_file := name f, unused_files := unused_files st @ [f]\<rparr>))"
  by (simp add: classify_file_def if_defs)

lemma classify_file_PCF:
  "file_type f = ''PCF'' \<Longrightarrow> classify_file ic st f =
     (if pcf_file st \<noteq> [] then Inl (RuntimeError (only_one_msg ''PCF file'' (pcf_file st) (name f)))
      else Inr (st\<lparr>pcf_file := name f, unused_files := unused_files st @ [f]\<rparr>))"
  by (simp add: classify_file_def if_defs)

lemma classify_file_XDC:
  "file_type f = ''XDC'' \<Longrightarrow> classify_file ic st f =
     (if xdc_file st \<noteq> [] then Inl (RuntimeError (only_one_msg ''XDC file'' (xdc_file st) (name f)))
      else Inr (st\<lparr>xdc_file := name f, unused_files := unused_files st @ [f]\<rparr>))"
  by (simp add: classify_file_def if_defs)

lemma classify_file_QSF:
  "file_type f = ''QSF'' \<Longrightarrow> classify_file ic st f =
     (if qsf_file st \<noteq> [] then Inl (RuntimeError (only_one_msg ''QSF file'' (qsf_file st) (name f)))
      else Inr (st\<lparr>qsf_file := name f\<rparr>))"
  by (simp add: classify_file_def if_defs)

lemma classify_file_jsonNetlist:
  "file_type f = ''jsonNetlist'' \<Longrightarrow> classify_file ic st f =
     (if netlist st \<noteq> [] then Inl (RuntimeError (only_one_msg ''netlist'' (netlist st) (name f)))
      else if ic then Inl (RuntimeError (json_mismatch_msg (name f)))
      else Inr (st\<lparr>netlist := name f\<rparr>))"
  by (simp add: classify_file_def if_defs)

lemma classify_file_fpgaInterchangeNetlist:
  "file_type f = ''fpgaInterchangeNetlist'' \<Longrightarrow> classify_file ic st f =
     (if netlist st \<noteq> [] then Inl (RuntimeError (only_one_msg ''netlist'' (netlist st) (name f)))
      else if \<not> ic then Inl (RuntimeError (interchange_mismatch_msg (name f)))
      else Inr st)"
  by (simp add: classify_file_def if_defs)

lemma classify_file_other:
  "file_type f \<notin> {''CST'', ''LPF'', ''PDC'', ''PCF'', ''XDC'', ''QSF'', ''jsonNetlist'', ''fpgaInterchangeNetlist''}
   \<Longrightarrow> classify_file ic st f = Inr (st\<lparr>unused_files := unused_files st @ [f]\<rparr>)"
  by (simp add: classify_file_def if_defs)

lemma file_type_cases:
  obtains (CST) "file_type f = ''CST''" | (LPF) "file_type f = ''LPF''" | (PDC) "file_type f = ''PDC''"
    | (PCF) "file_type f = ''PCF''" | (XDC) "file_type f = ''XDC''" | (QSF) "file_type f = ''QSF''"
    | (json) "file_type f = ''jsonNetlist''" | (interchange) "file_type f = ''fpgaInterchangeNetlist''"
    | (other) "file_type f \<notin> {''CST'', ''LPF'', ''PDC'', ''PCF'', ''XDC'', ''QSF'', ''jsonNetlist'', ''fpgaInterchangeNetlist''}"
  by blast

lemma classify_file_flat:
  "classify_file ic st f =
     (if file_type f = ''CST'' then
        (if cst_file st \<noteq> [] then Inl (RuntimeError (only_one_msg ''CST file'' (cst_file st) (name f)))
         else Inr (st\<lparr>cst_file := name f, unused_files := unused_files st @ [f]\<rparr>))
      else if file_type f = ''LPF'' then
        (if lpf_file st \<noteq> [] then Inl (RuntimeError (only_one_msg ''LPF file'' (pcf_file st) (name f)))
         else Inr (st\<lparr>lpf_file := name f, unused_files := unused_files st @ [f]\<rparr>))
      else if file_type f = ''PDC'' then
        (if pdc_file st \<noteq> [] then Inl (RuntimeError (only_one_msg ''PDC file'' (pdc_file st) (name f)))
         else Inr (st\<lparr>pdc_file := name f, unused_files := unused_files st @ [f]\<rparr>))
      else if file_type f = ''PCF'' then
        (if pcf_file st \<noteq> [] then Inl (RuntimeError (only_one_msg ''PCF file'' (pcf_file st) (name f)))
         else Inr (st\<lparr>pcf_file := name f, unused_files := unused_files st @ [f]\<rparr>))
      else if file_type f = ''XDC'' then
        (if xdc_file st \<noteq> [] then Inl (RuntimeError (only_one_msg ''XDC file'' (xdc_file st) (name f)))
         else Inr (st\<lparr>xdc_file := name f, unused_files := unused_files st @ [f]\<rparr>))
      else if file_type f = ''QSF'' then
        (if qsf_file st \<noteq> [] then Inl (RuntimeError (only_one_msg ''QSF file'' (qsf_file st) (name f)))
         else Inr (st\<lparr>qsf_file := name f\<rparr>))
      else if file_type f = ''jsonNetlist'' then
        (if netlist st \<noteq> [] then Inl (RuntimeError (only_one_msg ''netlist'' (netlist st) (name f)))
         else if ic then Inl (RuntimeError (json_mismatch_msg (name f)))
         else Inr (st\<lparr>netlist := name f\<rparr>))
      else if file_type f = ''fpgaInterchangeNetlist'' then
        (if netlist st \<noteq> [] then Inl (RuntimeError (only_one_msg ''netlist'' (netlist st) (name f)))
         else if \<not> ic then Inl (RuntimeError (interchange_mismatch_msg (name f)))
         else Inr st)
      else Inr (st\<lparr>unused_files := unused_files st @ [f]\<rparr>))"
proof (cases rule: file_type_cases[of f])
  case CST then show ?thesis by (simp add: classify_file_CST)
next
  case LPF then show ?thesis by (simp add: classify_file_LPF)
next
  case PDC then show ?thesis by (simp add: classify_file_PDC)
next
  case PCF then show ?thesis by (simp add: classify_file_PCF)
next
  case XDC then show ?thesis by (simp add: classify_file_XDC)
next
  case QSF then show ?thesis by (simp add: classify_file_QSF)
next
  case json then show ?thesis by (simp add: classify_file_jsonNetlist)
next
  case interchange then show ?thesis by (simp add: classify_file_fpgaInterchangeNetlist)
next
  case other then show ?thesis by (simp add: classify_file_other)
qed

lemma classify_file_error: "classify_file ic st f = Inl e \<Longrightarrow> \<exists>m. e = RuntimeError m"
  unfolding classify_file_flat by (auto split: if_splits)

lemma classify_error: "classify ic st fs = Inl e \<Longrightarrow> \<exists>m. e = RuntimeError m"
  by (induction fs arbitrary: st) (auto split: sum.splits dest: classify_file_error)

lemma classify_append:
  "classify ic st (xs @ ys) = bind_exc (classify ic st xs) (\<lambda>s. classify ic s ys)"
  by (induction xs arbitrary: st) (simp_all split: sum.splits)

lemma checked_role_cases:
  assumes "checked_role ic t"
  obtains "t = ''CST''" | "t = ''PDC''" | "t = ''PCF''" | "t = ''XDC''" | "t = ''QSF''"
    | "t = ''jsonNetlist''" "\<not> ic"
proof -
  from assms have "t = ''CST'' \<or> t = ''PDC'' \<or> t = ''PCF'' \<or> t = ''XDC'' \<or> t = ''QSF''
      \<or> (t = ''jsonNetlist'' \<and> \<not> ic)"
    by (simp only: checked_role_def)
  then show ?thesis
    apply (elim disjE conjE)
    using that by fast+
qed

lemma classify_file_sets_slot:
  assumes "checked_role ic t" "file_type f = t" "classify_file ic st f = Inr st'"
  shows "role_slot t st' = name f"
  using assms(1)
proof (cases rule: checked_role_cases)
  case 1 with assms(2,3) show ?thesis by (auto simp: classify_file_CST role_slot_def split: if_splits)
next
  case 2 with assms(2,3) show ?thesis by (auto simp: classify_file_PDC role_slot_def split: if_splits)
next
  case 3 with assms(2,3) show ?thesis by (auto simp: classify_file_PCF role_slot_def split: if_splits)
next
  case 4 with assms(2,3) show ?thesis by (auto simp: classify_file_XDC role_slot_def split: if_splits)
next
  case 5 with assms(2,3) show ?thesis by (auto simp: classify_file_QSF role_slot_def split: if_splits)
next
  case 6 with assms(2,3) show ?thesis by (auto simp: classify_file_jsonNetlist role_slot_def split: if_splits)
qed

lemma classify_file_duplicate:
  assumes "checked_role ic t" "file_type f = t" "role_slot t st \<noteq> []"
  shows "classify_file ic st f = Inl (RuntimeError (only_one_msg (role_kind t) (role_slot t st) (name f)))"
  using assms(1)
proof (cases rule: checked_role_cases)
  case 1 with assms(2,3) show ?thesis by (simp add: classify_file_CST role_slot_def role_kind_def)
next
  case 2 with assms(2,3) show ?thesis by (simp add: classify_file_PDC role_slot_def role_kind_def)
next
  case 3 with assms(2,3) show ?thesis by (simp add: classify_file_PCF role_slot_def role_kind_def)
next
  case 4 with assms(2,3) show ?thesis by (simp add: classify_file_XDC role_slot_def role_kind_def)
next
  case 5 with assms(2,3) show ?thesis by (simp add: classify_file_QSF role_slot_def role_kind_def)
next
  case 6 with assms(2,3) show ?thesis by (simp add: classify_file_jsonNetlist role_slot_def role_kind_def)
qed

lemma classify_file_keeps_slot:
  assumes "checked_role ic t" "role_slot t st \<noteq> []" "classify_file ic st g = Inr st'"
  shows "role_slot t st' = role_slot t st"
  using assms(1)
proof (cases rule: checked_role_cases)
  case 1 with assms(2,3) show ?thesis
    unfolding classify_file_flat by (auto simp: role_slot_def split: if_splits)
next
  case 2 with assms(2,3) show ?thesis
    unfolding classify_file_flat by (auto simp: role_slot_def split: if_splits)
next
  case 3 with assms(2,3) show ?thesis
    unfolding classify_file_flat by (auto simp: role_slot_def split: if_splits)
next
  case 4 with assms(2,3) show ?thesis
    unfolding classify_file_flat by (auto simp: role_slot_def split: if_splits)
next
  case 5 with assms(2,3) show ?thesis
    unfolding classify_file_flat by (auto simp: role_slot_def split: if_splits)
next
  case 6 with assms(2,3) show ?thesis
    unfolding classify_file_flat by (auto simp: role_slot_def split: if_splits)
qed

lemma classify_keeps_slot:
  "checked_role ic t \<Longrightarrow> role_slot t st \<noteq> [] \<Longrightarrow> classify ic st gs = Inr st' \<Longrightarrow>
   role_slot t st' = role_slot t st"
proof (induction gs arbitrary: st)
  case Nil
  then show ?case by simp
next
  case (Cons g gs)
  from Cons.prems(3) obtain s1 where s1: "classify_file ic st g = Inr s1" and rest: "classify ic s1 gs = Inr st'"
    by (auto split: sum.splits)
  have eq: "role_slot t s1 = role_slot t st"
    using classify_file_keeps_slot[OF Cons.prems(1,2) s1] .
  then have "role_slot t s1 \<noteq> []" using Cons.prems(2) by simp
  from Cons.IH[OF Cons.prems(1) this rest] eq show ?case by simp
qed

lemma classify_duplicate_exact:
  assumes "checked_role ic t" "file_type f1 = t" "file_type f2 = t" "name f1 \<noteq> []"
    and "classify ic st (pre @ f1 # mid) = Inr st'"
  shows "classify ic st (pre @ f1 # mid @ f2 # post)
           = Inl (RuntimeError (only_one_msg (role_kind t) (name f1) (name f2)))"
proof -
  have "bind_exc (classify ic st pre) (\<lambda>s. classify ic s (f1 # mid)) = Inr st'"
    using assms(5) by (simp only: classify_append)
  then obtain s1 where s1: "classify ic st pre = Inr s1" and r1: "classify ic s1 (f1 # mid) = Inr st'"
    by (cases "classify ic st pre") simp_all
  from r1 obtain s2 where s2: "classify_file ic s1 f1 = Inr s2" and s3: "classify ic s2 mid = Inr st'"
    by (auto split: sum.splits)
  have slot2: "role_slot t s2 = name f1"
    using classify_file_sets_slot[OF assms(1,2) s2] .
  then have "role_slot t s2 \<noteq> []" using assms(4) by simp
  from classify_keeps_slot[OF assms(1) this s3] slot2 have slot3: "role_slot t st' = name f1" by simp
  then have "role_slot t st' \<noteq> []" using assms(4) by simp
  from classify_file_duplicate[OF assms(1,3) this] slot3
  have dup: "classify_file ic st' f2 = Inl (RuntimeError (only_one_msg (role_kind t) (name f1) (name f2)))"
    by simp
  have "classify ic st (pre @ f1 # mid @ f2 # post) = classify ic st ((pre @ f1 # mid) @ f2 # post)"
    by simp
  also have "\<dots> = bind_exc (classify ic st (pre @ f1 # mid)) (\<lambda>s. classify ic s (f2 # post))"
    by (rule classify_append)
  also have "\<dots> = classify ic st' (f2 # post)" by (simp only: assms(5) bind_exc_simps)
  also have "\<dots> = Inl (RuntimeError (only_one_msg (role_kind t) (name f1) (name f2)))"
    by (simp add: dup)
  finally show ?thesis .
qed

lemma classify_duplicate_fails:
  assumes "checked_role ic t" "file_type f1 = t" "file_type f2 = t" "name f1 \<noteq> []"
  shows "\<exists>m. classify ic st (pre @ f1 # mid @ f2 # post) = Inl (RuntimeError m)"
proof (cases "classify ic st (pre @ f1 # mid)")
  case (Inl e)
  have "classify ic st (pre @ f1 # mid @ f2 # post) = classify ic st ((pre @ f1 # mid) @ f2 # post)"
    by simp
  also have "\<dots> = bind_exc (classify ic st (pre @ f1 # mid)) (\<lambda>s. classify ic s (f2 # post))"
    by (rule classify_append)
  also have "\<dots> = Inl e" by (simp only: Inl bind_exc_simps)
  finally show ?thesis using classify_error[OF Inl] by auto
next
  case (Inr st')
  from classify_duplicate_exact[OF assms Inr] show ?thesis by blast
qed

section \<open>The command graph and the assertion of configure\_nextpnr\<close>

lemma stage_outputs_add: "stage_outputs (add c outs ins g) = stage_outputs g \<union> set outs"
  by (auto simp: stage_outputs_def add_def)

lemma default_target_add: "default_target (add c outs ins g) = default_target g"
  by (simp add: add_def)

lemma stage_outputs_set_default_target: "stage_outputs (set_default_target t g) = stage_outputs g"
  by (simp add: stage_outputs_def set_default_target_def)

lemma default_target_set_default_target: "default_target (set_default_target t g) = Some t"
  by (simp add: set_default_target_def)

lemma placement_constraints_foldl:
  "placement_constraints (foldl nextpnr_src_file r fs)
     = placement_constraints r @ map name (filter (\<lambda>f. file_type f = ''xdc'') fs)"
  by (induction fs arbitrary: r) (simp_all add: nextpnr_src_file_def)

lemma placement_constraints_nextpnr_src_files:
  "placement_constraints (nextpnr_src_files fs) = map name (filter (\<lambda>f. file_type f = ''xdc'') fs)"
  by (simp add: nextpnr_src_files_def placement_constraints_foldl src_roles_init_def)

lemma length_xdc_flags: "length (xdc_flags pcs) = 2 * length pcs"
  by (induction pcs) (simp_all add: xdc_flags_def)

lemma interchange_chain_assert:
  "length xdcs \<noteq> 2 \<Longrightarrow> interchange_chain self r a pk xdcs fam no g = Inl AssertionError"
  by (simp add: interchange_chain_def)

lemma interchange_chain_cases:
  "length xdcs = 2 \<Longrightarrow>
     (fam = None \<and> interchange_chain self r a pk xdcs fam no g = Inl (NameError ''family''))
   \<or> (\<exists>g'. interchange_chain self r a pk xdcs fam no g = Inr g')"
  by (cases fam) (simp_all add: interchange_chain_def Let_def)

lemma bitstream_stage_cases:
  "(bd = None \<and> bitstream_stage self bd pn g = Inl (NameError ''bitstream_device''))
   \<or> (\<exists>g'. bd \<noteq> None \<and> bitstream_stage self bd pn g = Inr g')"
  by (cases bd) (simp_all add: bitstream_stage_def Let_def)

lemma interchange_chain_no_assert:
  "length xdcs = 2 \<Longrightarrow> interchange_chain self r a pk xdcs fam no g \<noteq> Inl AssertionError"
  using interchange_chain_cases[of xdcs fam self r a pk no g] by auto

lemma bitstream_stage_no_assert: "bitstream_stage self bd pn g \<noteq> Inl AssertionError"
  using bitstream_stage_cases[of bd self pn g] by auto

lemma nextpnr_finish_no_assert: "snd (nextpnr_finish self r p pk g) \<noteq> Inl AssertionError"
  by (simp add: nextpnr_finish_def nextpnr_fasm2bels_stages_def Let_def split: option.splits)

lemma bind_exc_neq: "m \<noteq> Inl e \<Longrightarrow> (\<And>v. k v \<noteq> Inl e) \<Longrightarrow> bind_exc m k \<noteq> Inl e"
  by (cases m) (simp_all add: bind_exc_def)

lemma snd_configure_nextpnr:
  "self_tool_options self ''part'' = Some p \<Longrightarrow> self_tool_options self ''package'' = Some pk \<Longrightarrow>
   snd (configure_nextpnr self fs ys) =
     (case nextpnr_main_chain self (nextpnr_src_files fs) p pk ys of
        Inl e \<Rightarrow> Inl e
      | Inr g \<Rightarrow> snd (nextpnr_finish self (nextpnr_src_files fs) p pk g))"
  by (simp add: configure_nextpnr_def Let_def split: sum.splits)

lemma src_last_wins:
  "file_type f = ''bba'' \<Longrightarrow> chipdb (nextpnr_src_files (fs @ [f])) = Some (name f)"
  "file_type f = ''device'' \<Longrightarrow> device (nextpnr_src_files (fs @ [f])) = Some (name f)"
  "file_type f = ''RRGraph'' \<Longrightarrow> rr_graph (nextpnr_src_files (fs @ [f])) = Some (name f)"
  "file_type f = ''VPRGrid'' \<Longrightarrow> vpr_grid (nextpnr_src_files (fs @ [f])) = Some (name f)"
  "file_type f = ''capnp'' \<Longrightarrow> vpr_capnp_schema (nextpnr_src_files (fs @ [f])) = Some (name f)"
  by (simp_all add: nextpnr_src_files_def nextpnr_src_file_def)

section \<open>Nextpnr.configure\_main\<close>

lemma nextpnr_configure_main_arch:
  "self_flow_config self ''arch'' = Some a \<Longrightarrow>
   nextpnr_configure_main self =
     (if a = ''fpga_interchange'' \<and> self_tool_options self ''chipdb'' = None
      then Inl (RuntimeError chipdb_msg)
      else bind_exc (classify (a = ''fpga_interchange'') roles_init (self_files self)) (\<lambda>st.
           bind_exc (select_arch self a st) (\<lambda>row. Inr (nextpnr_write self a st row))))"
  by (simp add: nextpnr_configure_main_def Let_def)

lemma device_row_missing:
  "py_not (self_tool_options self ''device'') \<Longrightarrow>
   device_row self a ext cflag cfile oflag = Inl (RuntimeError (missing_device_msg a))"
  by (simp add: device_row_def Let_def)

lemma select_arch_device_missing:
  assumes "a = ''mistral'' \<or> a = ''nexus'' \<or> a = ''gowin''" "py_not (self_tool_options self ''device'')"
  shows "select_arch self a st = Inl (RuntimeError (missing_device_msg a))"
  using assms(1) by (elim disjE) (simp_all add: select_arch_def device_row_missing[OF assms(2)])

lemma select_arch_default:
  assumes "a \<noteq> ''ecp5''" "a \<noteq> ''mistral''" "a \<noteq> ''nexus''" "a \<noteq> ''gowin''" "a \<noteq> ''fpga_interchange''"
  shows "select_arch self a st =
     Inr \<lparr>arch_options = [], targets = self_name self @ ''.asc'',
          constraints = (if pcf_file st \<noteq> [] then [''--pcf'', pcf_file st] else []),
          output_opts = [''--asc'', self_name self @ ''.asc'']\<rparr>"
  using assms by (simp add: select_arch_def)

lemma nextpnr_write_target:
  "default_target (makefile (nextpnr_write self a st row)) = Some (targets row)
   \<and> targets row \<in> stage_outputs (makefile (nextpnr_write self a st row))"
  by (simp add: nextpnr_write_def Let_def default_target_set_default_target
        stage_outputs_set_default_target stage_outputs_add)

lemma nextpnr_write_first_token:
  "hd (command (hd (commands (makefile (nextpnr_write self a st row))))) = Some (''nextpnr-'' @ a)"
  by (simp add: nextpnr_write_def Let_def set_default_target_def add_def EdaCommands_init_def
        nextpnr_command_def split: option.splits)

lemma nextpnr_configure_main_Inr:
  assumes "nextpnr_configure_main self = Inr res"
  shows "\<exists>a st row. self_flow_config self ''arch'' = Some a
          \<and> \<not> (a = ''fpga_interchange'' \<and> self_tool_options self ''chipdb'' = None)
          \<and> classify (a = ''fpga_interchange'') roles_init (self_files self) = Inr st
          \<and> select_arch self a st = Inr row
          \<and> res = nextpnr_write self a st row"
proof (cases "self_flow_config self ''arch''")
  case None
  with assms show ?thesis by (simp add: nextpnr_configure_main_def)
next
  case (Some a)
  from assms show ?thesis unfolding nextpnr_configure_main_arch[OF Some]
    by (cases "classify (a = ''fpga_interchange'') roles_init (self_files self)";
        cases "select_arch self a (projr (classify (a = ''fpga_interchange'') roles_init (self_files self)))")
       (auto simp: Some split: if_splits)
qed

lemma classify_file_mismatched:
  "mismatched ic f \<Longrightarrow> \<exists>m. classify_file ic st f = Inl (RuntimeError m)"
  by (auto simp: mismatched_def classify_file_jsonNetlist classify_file_fpgaInterchangeNetlist)

lemma classify_file_mismatched_exact:
  "mismatched ic f \<Longrightarrow> netlist st = [] \<Longrightarrow>
   classify_file ic st f = Inl (RuntimeError (mismatch_msg ic (name f)))"
  by (auto simp: mismatched_def mismatch_msg_def classify_file_jsonNetlist
        classify_file_fpgaInterchangeNetlist)

lemma classify_mismatched:
  "f \<in> set fs \<Longrightarrow> mismatched ic f \<Longrightarrow> \<exists>m. classify ic st fs = Inl (RuntimeError m)"
proof (induction fs arbitrary: st)
  case Nil
  then show ?case by simp
next
  case (Cons g gs)
  show ?case
  proof (cases "classify_file ic st g")
    case (Inl e)
    with classify_file_error[OF Inl] show ?thesis by auto
  next
    case (Inr s1)
    have "f \<noteq> g"
    proof
      assume "f = g"
      with classify_file_mismatched[OF Cons.prems(2), of st] Inr show False by auto
    qed
    with Cons.prems(1) have "f \<in> set gs" by simp
    from Cons.IH[OF this Cons.prems(2), of s1] Inr show ?thesis by simp
  qed
qed

lemma classify_mismatched_exact:
  assumes "mismatched ic f" "classify ic st pre = Inr st'" "netlist st' = []"
  shows "classify ic st (pre @ f # post) = Inl (RuntimeError (mismatch_msg ic (name f)))"
proof -
  have "classify ic st (pre @ f # post) = bind_exc (classify ic st pre) (\<lambda>s. classify ic s (f # post))"
    by (rule classify_append)
  also have "\<dots> = classify ic st' (f # post)" by (simp only: assms(2) bind_exc_simps)
  also have "\<dots> = Inl (RuntimeError (mismatch_msg ic (name f)))"
    by (simp add: classify_file_mismatched_exact[OF assms(1,3)])
  finally show ?thesis .
qed

lemma mismatch_msg_names_file: "suffix n (mismatch_msg ic n)"
  by (simp add: mismatch_msg_def json_mismatch_msg_def interchange_mismatch_msg_def suffix_def)

lemma symbiflow_configure_main_unsupported:
  assumes "self_tool_options self ''pnr'' \<noteq> Some ''nextpnr''"
    "self_tool_options self ''pnr'' \<noteq> Some ''vtr''" "self_tool_options self ''pnr'' \<noteq> Some ''vpr''"
  shows "symbiflow_configure_main self src_files ys = ([pnr_msg (self_tool_options self ''pnr'')], Inr None)"
  using assms by (simp add: symbiflow_configure_main_def Let_def)

lemma nextpnr_configure_main_default:
  assumes "self_flow_config self ''arch'' = Some a"
    and "a \<noteq> ''ecp5''" "a \<noteq> ''mistral''" "a \<noteq> ''nexus''" "a \<noteq> ''gowin''" "a \<noteq> ''fpga_interchange''"
    and "classify False roles_init (self_files self) = Inr st"
  shows "nextpnr_configure_main self
           = Inr (nextpnr_write self a st
                   \<lparr>arch_options = [], targets = self_name self @ ''.asc'',
                    constraints = (if pcf_file st \<noteq> [] then [''--pcf'', pcf_file st] else []),
                    output_opts = [''--asc'', self_name self @ ''.asc'']\<rparr>)"
  using assms(6,7)
  by (simp add: nextpnr_configure_main_arch[OF assms(1)] select_arch_default[OF assms(2-6)])

lemma option_log_subset:
  "set (nextpnr_option_log self) \<subseteq> set (fst (configure_nextpnr self fs ys))"
  by (auto simp: configure_nextpnr_def Let_def split: option.splits sum.splits)

lemma option_log_msgs:
  "not_in_archs (self_tool_options self ''arch'')
     \<Longrightarrow> arch_msg (self_tool_options self ''arch'') \<in> set (nextpnr_option_log self)"
  "py_not (self_tool_options self ''package'') \<Longrightarrow> package_msg \<in> set (nextpnr_option_log self)"
  "py_not (self_tool_options self ''part'') \<Longrightarrow> part_msg \<in> set (nextpnr_option_log self)"
  by (simp_all add: nextpnr_option_log_def Let_def)

lemma configure_nextpnr_no_part:
  "self_tool_options self ''part'' = None \<Longrightarrow> snd (configure_nextpnr self fs ys) = Inl TypeError"
  by (simp add: configure_nextpnr_def Let_def)

lemma configure_nextpnr_no_package:
  "self_tool_options self ''package'' = None \<Longrightarrow> snd (configure_nextpnr self fs ys) = Inl TypeError"
  by (simp add: configure_nextpnr_def Let_def split: option.splits)

lemma missing_device_msg_names_key: "sublist ''device'' (missing_device_msg a)"
proof -
  have "missing_device_msg a = (''Missing required option '' @ [CHR 0x27]) @ ''device''
          @ ([CHR 0x27] @ '' for nextpnr-'' @ a)"
    by (simp add: missing_device_msg_def)
  then show ?thesis by (simp only: sublist_appendI)
qed

section \<open>The bitstream device\<close>


lemma bind_exc_Inr: "bind_exc m k = Inr v \<Longrightarrow> \<exists>u. m = Inr u \<and> k u = Inr v"
  by (cases m) simp_all

lemma bitstream_stage_Inr:
  "bitstream_stage self bd pn g = Inr g' \<Longrightarrow>
   bd \<noteq> None \<and> stage_outputs g' = stage_outputs g \<union> {self_name self @ ''.bit''}
   \<and> default_target g' = default_target g"
  by (cases bd) (auto simp add: bitstream_stage_def Let_def stage_outputs_add default_target_add)


lemma nextpnr_main_chain_Inr:
  assumes "nextpnr_main_chain self r p pk ys = Inr g"
  shows "bitstream_device_of p \<noteq> None \<and> self_name self @ ''.bit'' \<in> stage_outputs g"
proof -
  from assms obtain u where "bitstream_stage self (bitstream_device_of p) (p @ pk) u = Inr g"
    unfolding nextpnr_main_chain_def Let_def by (blast dest: bind_exc_Inr)
  from bitstream_stage_Inr[OF this] show ?thesis by simp
qed

lemma configure_nextpnr_Inr:
  assumes "snd (configure_nextpnr self fs ys) = Inr g"
  shows "\<exists>p pk g0. self_tool_options self ''part'' = Some p \<and> self_tool_options self ''package'' = Some pk
          \<and> nextpnr_main_chain self (nextpnr_src_files fs) p pk ys = Inr g0
          \<and> snd (nextpnr_finish self (nextpnr_src_files fs) p pk g0) = Inr g"
  using assms
  by (auto simp: configure_nextpnr_def Let_def split: option.splits sum.splits)






lemma configure_vpr_xilinx:
  assumes "self_tool_options self ''vendor'' = Some ''xilinx''"
    "self_tool_options self ''part'' = Some p" "self_tool_options self ''package'' = Some pk"
  shows "snd (configure_vpr self fs)
       = snd (vpr_stages self (vpr_src_files fs) (Some ''xilinx'') (bitstream_device_of p) (Some (p @ pk))
               (if p = ''xc7a35t'' then ''xc7a50t'' else p) ''test'')"
  using assms by (simp add: configure_vpr_def Let_def)


section \<open>Default targets\<close>

lemma stage_outputs_init: "stage_outputs EdaCommands_init = {}"
  by (simp add: stage_outputs_def EdaCommands_init_def)

lemma stage_outputs_add_var: "stage_outputs (add_var v g) = stage_outputs g"
  by (simp add: stage_outputs_def add_var_def)

lemma nextpnr_fasm2bels_stages_Inr:
  "nextpnr_fasm2bels_stages self r d bd pn g = Inr g' \<Longrightarrow> ''timing_summary.rpt'' \<in> stage_outputs g'"
  by (cases d) (auto simp: nextpnr_fasm2bels_stages_def Let_def stage_outputs_add)

lemma nextpnr_finish_target:
  assumes "snd (nextpnr_finish self r p pk g) = Inr g'" "self_name self @ ''.bit'' \<in> stage_outputs g"
  shows "\<exists>d. default_target g' = Some d \<and> d \<in> stage_outputs g'"
proof (cases "get_fasm2bels self")
  case True
  with assms(1) obtain g2 where
    g2: "nextpnr_fasm2bels_stages self r (self_tool_options self ''dbroot'') (py_str (bitstream_device_of p)) (p @ pk) g = Inr g2"
    and g': "g' = set_default_target ''timing_summary.rpt'' g2"
    by (auto simp: nextpnr_finish_def Let_def split: sum.splits)
  from nextpnr_fasm2bels_stages_Inr[OF g2] g' show ?thesis
    by (simp add: default_target_set_default_target stage_outputs_set_default_target)
next
  case False
  with assms show ?thesis
    by (auto simp: nextpnr_finish_def Let_def default_target_set_default_target
          stage_outputs_set_default_target)
qed

lemma stage_outputs_vpr_main_chain:
  "stage_outputs (vpr_main_chain self r vendor bd pn part ds)
     = {self_toplevel self @ ''.eblif'', self_toplevel self @ ''.net'', self_toplevel self @ ''.place'',
        self_toplevel self @ ''.route'', self_toplevel self @ ''.fasm'', self_toplevel self @ ''.bit''}"
  by (auto simp add: vpr_main_chain_def Let_def stage_outputs_add stage_outputs_add_var stage_outputs_init)

lemma stage_outputs_vpr_fasm2bels:
  "vpr_fasm2bels_stages self r d bd pn g = Inr h \<Longrightarrow>
   stage_outputs h = stage_outputs g \<union> {self_toplevel self @ ''.bit.v'', ''timing_summary.rpt''}"
  by (cases d) (auto simp: vpr_fasm2bels_stages_def Let_def stage_outputs_add)

lemma stage_outputs_quicklogic_stages:
  "stage_outputs (quicklogic_stages self g)
     = stage_outputs g \<union> {self_toplevel self @ ''.bin'', self_toplevel self @ ''.h'',
          self_toplevel self @ ''.openocd.cfg'', self_toplevel self @ ''.jlink''}"
  by (auto simp add: quicklogic_stages_def Let_def stage_outputs_add)

lemma vpr_stages_Inr:
  assumes "snd (vpr_stages self r vendor bdo pn part ds) = Inr g"
  shows "\<exists>bd g9 lt. bdo = Some bd
      \<and> ((get_fasm2bels self \<and> vpr_fasm2bels_stages self r (self_tool_options self ''dbroot'') bd pn
              (vpr_main_chain self r vendor bd pn part ds) = Inr g9 \<and> lt = ''timing_summary.rpt'')
         \<or> (\<not> get_fasm2bels self \<and> g9 = vpr_main_chain self r vendor bd pn part ds
              \<and> lt = self_toplevel self @ ''.bit''))
      \<and> g = (if vendor = Some ''quicklogic''
              then set_default_target (quicklogic_target self) (quicklogic_stages self g9)
              else set_default_target lt g9)"
proof (cases bdo)
  case None
  with assms show ?thesis by (simp add: vpr_stages_def Let_def)
next
  case (Some bd)
  show ?thesis
  proof (cases "get_fasm2bels self")
    case True
    show ?thesis
    proof (cases "vpr_fasm2bels_stages self r (self_tool_options self ''dbroot'') bd pn
              (vpr_main_chain self r vendor bd pn part ds)")
      case (Inl e)
      with assms Some True show ?thesis by (simp add: vpr_stages_def Let_def)
    next
      case (Inr h)
      with assms Some True show ?thesis by (auto simp add: vpr_stages_def Let_def)
    qed
  next
    case False
    with assms Some show ?thesis by (auto simp add: vpr_stages_def Let_def)
  qed
qed

lemma vpr_stages_target:
  assumes "snd (vpr_stages self r vendor bdo pn part ds) = Inr g"
  shows "(vendor \<noteq> Some ''quicklogic'' \<longrightarrow> (\<exists>d. default_target g = Some d \<and> d \<in> stage_outputs g))
       \<and> (vendor = Some ''quicklogic'' \<longrightarrow> default_target g = Some (quicklogic_target self)
            \<and> self_toplevel self @ ''.bin'' \<in> stage_outputs g
            \<and> self_toplevel self @ ''.h'' \<in> stage_outputs g
            \<and> self_toplevel self @ ''.openocd.cfg'' \<in> stage_outputs g)"
proof -
  from vpr_stages_Inr[OF assms] obtain bd g9 lt where
    sub: "(get_fasm2bels self \<and> vpr_fasm2bels_stages self r (self_tool_options self ''dbroot'') bd pn
              (vpr_main_chain self r vendor bd pn part ds) = Inr g9 \<and> lt = ''timing_summary.rpt'')
         \<or> (\<not> get_fasm2bels self \<and> g9 = vpr_main_chain self r vendor bd pn part ds
              \<and> lt = self_toplevel self @ ''.bit'')"
    and g: "g = (if vendor = Some ''quicklogic''
              then set_default_target (quicklogic_target self) (quicklogic_stages self g9)
              else set_default_target lt g9)" by blast
  from sub have lt: "lt \<in> stage_outputs g9"
    by (auto simp: stage_outputs_vpr_main_chain dest: stage_outputs_vpr_fasm2bels)
  show ?thesis using g lt
    by (simp add: default_target_set_default_target stage_outputs_set_default_target
          stage_outputs_quicklogic_stages)
qed

lemma configure_vpr_Inr:
  assumes "snd (configure_vpr self fs) = Inr g"
  shows "\<exists>bdo pn part ds. snd (vpr_stages self (vpr_src_files fs) (self_tool_options self ''vendor'') bdo pn part ds) = Inr g"
  using assms
  by (auto simp: configure_vpr_def Let_def split: if_splits option.splits)

lemma subset_insert4:
  "A \<subseteq> {a, b, c, d, e, f, h, i} \<Longrightarrow> A \<union> {j, k, l, m} \<subseteq> {a, b, c, d, e, f, h, i, j, k, l, m}"
  by blast

lemma subset_widen4:
  "A \<subseteq> {a, b, c, d, e, f, h, i} \<Longrightarrow> A \<subseteq> {a, b, c, d, e, f, h, i, j, k, l, m}"
  by blast

lemma subset6_8: "{a, b, c, d, e, f} \<subseteq> {a, b, c, d, e, f, h, i}"
  by blast

lemma subset6_8_Un: "{a, b, c, d, e, f} \<union> {h, i} \<subseteq> {a, b, c, d, e, f, h, i}"
  by blast

lemma vpr_stages_outputs_subset:
  assumes "snd (vpr_stages self r vendor bdo pn part ds) = Inr g"
  shows "stage_outputs g \<subseteq>
     {self_toplevel self @ ''.eblif'', self_toplevel self @ ''.net'', self_toplevel self @ ''.place'',
      self_toplevel self @ ''.route'', self_toplevel self @ ''.fasm'', self_toplevel self @ ''.bit'',
      self_toplevel self @ ''.bit.v'', ''timing_summary.rpt'',
      self_toplevel self @ ''.bin'', self_toplevel self @ ''.h'',
      self_toplevel self @ ''.openocd.cfg'', self_toplevel self @ ''.jlink''}"
proof -
  from vpr_stages_Inr[OF assms] obtain bd g9 lt where
    sub: "(get_fasm2bels self \<and> vpr_fasm2bels_stages self r (self_tool_options self ''dbroot'') bd pn
              (vpr_main_chain self r vendor bd pn part ds) = Inr g9 \<and> lt = ''timing_summary.rpt'')
         \<or> (\<not> get_fasm2bels self \<and> g9 = vpr_main_chain self r vendor bd pn part ds
              \<and> lt = self_toplevel self @ ''.bit'')"
    and g: "g = (if vendor = Some ''quicklogic''
              then set_default_target (quicklogic_target self) (quicklogic_stages self g9)
              else set_default_target lt g9)" by blast
  from sub have g9: "stage_outputs g9 \<subseteq>
     {self_toplevel self @ ''.eblif'', self_toplevel self @ ''.net'', self_toplevel self @ ''.place'',
      self_toplevel self @ ''.route'', self_toplevel self @ ''.fasm'', self_toplevel self @ ''.bit'',
      self_toplevel self @ ''.bit.v'', ''timing_summary.rpt''}"
  proof (elim disjE conjE)
    assume "vpr_fasm2bels_stages self r (self_tool_options self ''dbroot'') bd pn
              (vpr_main_chain self r vendor bd pn part ds) = Inr g9"
    from stage_outputs_vpr_fasm2bels[OF this] show ?thesis
      by (simp only: stage_outputs_vpr_main_chain subset6_8_Un)
  next
    assume "g9 = vpr_main_chain self r vendor bd pn part ds"
    then show ?thesis by (simp only: stage_outputs_vpr_main_chain subset6_8)
  qed
  show ?thesis
  proof (cases "vendor = Some ''quicklogic''")
    case True
    with g have "stage_outputs g = stage_outputs g9 \<union> {self_toplevel self @ ''.bin'', self_toplevel self @ ''.h'',
          self_toplevel self @ ''.openocd.cfg'', self_toplevel self @ ''.jlink''}"
      by (simp add: stage_outputs_set_default_target stage_outputs_quicklogic_stages)
    with subset_insert4[OF g9] show ?thesis by (simp only:)
  next
    case False
    with g have "stage_outputs g = stage_outputs g9" by (simp add: stage_outputs_set_default_target)
    with subset_widen4[OF g9] show ?thesis by (simp only:)
  qed
qed

lemma quicklogic_target_not_path:
  "quicklogic_target self \<notin>
     {self_toplevel self @ ''.eblif'', self_toplevel self @ ''.net'', self_toplevel self @ ''.place'',
      self_toplevel self @ ''.route'', self_toplevel self @ ''.fasm'', self_toplevel self @ ''.bit'',
      self_toplevel self @ ''.bit.v'', ''timing_summary.rpt'',
      self_toplevel self @ ''.bin'', self_toplevel self @ ''.h'',
      self_toplevel self @ ''.openocd.cfg'', self_toplevel self @ ''.jlink''}"
proof -
  have "quicklogic_target self \<noteq> ''timing_summary.rpt''"
  proof
    assume "quicklogic_target self = ''timing_summary.rpt''"
    then have "last (quicklogic_target self) = last ''timing_summary.rpt''" by simp
    then show False by (simp add: quicklogic_target_def)
  qed
  then show ?thesis by (simp add: quicklogic_target_def)
qed

section \<open>Logged messages and exceptions of Symbiflow\<close>

lemma interchange_chain_no_RuntimeError:
  "interchange_chain self r a pk xdcs fam no g \<noteq> Inl (RuntimeError m)"
  by (simp add: interchange_chain_def Let_def split: option.splits)

lemma direct_chain_no_RuntimeError: "direct_chain self r a xdcs no g \<noteq> Inl (RuntimeError m)"
  by (simp add: direct_chain_def Let_def split: option.splits)

lemma bitstream_stage_no_RuntimeError: "bitstream_stage self bd pn g \<noteq> Inl (RuntimeError m)"
  by (simp add: bitstream_stage_def Let_def split: option.splits)

lemma nextpnr_main_chain_no_RuntimeError:
  "nextpnr_main_chain self r p pk ys \<noteq> Inl (RuntimeError m)"
  unfolding nextpnr_main_chain_def Let_def
  by (rule bind_exc_neq)
     (simp_all add: interchange_chain_no_RuntimeError direct_chain_no_RuntimeError
        bitstream_stage_no_RuntimeError)

lemma nextpnr_finish_no_RuntimeError: "snd (nextpnr_finish self r p pk g) \<noteq> Inl (RuntimeError m)"
  by (simp add: nextpnr_finish_def nextpnr_fasm2bels_stages_def Let_def split: option.splits)

lemma configure_nextpnr_no_RuntimeError: "snd (configure_nextpnr self fs ys) \<noteq> Inl (RuntimeError m)"
proof (cases "self_tool_options self ''part''")
  case None
  then show ?thesis by (simp add: configure_nextpnr_no_part)
next
  case (Some p)
  show ?thesis
  proof (cases "self_tool_options self ''package''")
    case None
    then show ?thesis by (simp add: configure_nextpnr_no_package)
  next
    case (Some pk)
    show ?thesis
      using nextpnr_main_chain_no_RuntimeError[of self "nextpnr_src_files fs" p pk ys m]
      by (cases "nextpnr_main_chain self (nextpnr_src_files fs) p pk ys")
         (simp_all add: snd_configure_nextpnr[OF \<open>self_tool_options self ''part'' = Some p\<close> Some]
            nextpnr_finish_no_RuntimeError)
  qed
qed

lemma fst_vpr_stages:
  "fst (vpr_stages self r vendor bdo pn part ds)
     = (if get_fasm2bels self
        then fasm2bels_log r (self_tool_options self ''dbroot'') @ fasm2bels_log r (self_tool_options self ''dbroot'')
        else [])"
  by (simp add: vpr_stages_def Let_def bind_exc_def split: option.splits sum.splits prod.splits)

lemma vpr_stages_no_RuntimeError: "snd (vpr_stages self r vendor bdo pn part ds) \<noteq> Inl (RuntimeError m)"
  by (simp add: vpr_stages_def Let_def bind_exc_def vpr_fasm2bels_stages_def
        split: option.splits sum.splits prod.splits)

lemma configure_vpr_no_RuntimeError: "snd (configure_vpr self fs) \<noteq> Inl (RuntimeError m)"
  by (simp add: configure_vpr_def Let_def vpr_stages_no_RuntimeError split: option.splits)

lemma fst_configure_vpr:
  "fst (configure_vpr self fs) =
     vpr_option_log self fs
     @ (if self_tool_options self ''vendor'' = Some ''xilinx''
        then (if self_tool_options self ''part'' = None \<or> self_tool_options self ''package'' = None then []
              else if get_fasm2bels self
              then fasm2bels_log (vpr_src_files fs) (self_tool_options self ''dbroot'')
                   @ fasm2bels_log (vpr_src_files fs) (self_tool_options self ''dbroot'')
              else [])
        else if self_tool_options self ''vendor'' = Some ''quicklogic''
        then (if self_tool_options self ''part'' = None then []
              else if get_fasm2bels self
              then fasm2bels_log (vpr_src_files fs) (self_tool_options self ''dbroot'')
                   @ fasm2bels_log (vpr_src_files fs) (self_tool_options self ''dbroot'')
              else [])
        else if get_fasm2bels self
        then fasm2bels_log (vpr_src_files fs) (self_tool_options self ''dbroot'')
        else [])"
  by (simp add: configure_vpr_def Let_def fst_vpr_stages split: option.splits)

lemma fasm2bels_log_msg:
  "rr_graph r = None \<or> vpr_grid r = None \<or> d = None \<Longrightarrow> fasm2bels_log r d = [fasm2bels_msg]"
  by (simp add: fasm2bels_log_def)

lemma fasm2bels_msg_not_option_log:
  "fasm2bels_msg \<notin> set (nextpnr_option_log self)"
  "fasm2bels_msg \<notin> set (nextpnr_file_log self p r)"
  "fasm2bels_msg \<notin> set (vpr_option_log self fs)"
  by (simp_all add: nextpnr_option_log_def nextpnr_file_log_def vpr_option_log_def Let_def
        fasm2bels_msg_def arch_msg_def package_msg_def part_msg_def family_msg_def
        chipdb_file_msg_def xdc_msg_def device_file_msg_def vhdl_msg_def)

lemma fst_nextpnr_finish:
  "fst (nextpnr_finish self r p pk g)
     = (if get_fasm2bels self then fasm2bels_log r (self_tool_options self ''dbroot'') else [])"
  by (simp add: nextpnr_finish_def Let_def split: sum.splits)

lemma fst_configure_nextpnr:
  "fst (configure_nextpnr self fs ys) =
     nextpnr_option_log self
     @ (case self_tool_options self ''part'' of None \<Rightarrow> []
        | Some p \<Rightarrow> nextpnr_file_log self p (nextpnr_src_files fs)
            @ (case self_tool_options self ''package'' of None \<Rightarrow> []
               | Some pk \<Rightarrow>
                  (case nextpnr_main_chain self (nextpnr_src_files fs) p pk ys of Inl e \<Rightarrow> []
                   | Inr g \<Rightarrow> (if get_fasm2bels self
                               then fasm2bels_log (nextpnr_src_files fs) (self_tool_options self ''dbroot'')
                               else []))))"
  by (simp add: configure_nextpnr_def Let_def fst_nextpnr_finish split: option.splits sum.splits)

lemma nextpnr_finish_disabled:
  "\<not> get_fasm2bels self \<Longrightarrow>
   snd (nextpnr_finish self r p pk g) = Inr (set_default_target (self_name self @ ''.bit'') g)"
  by (simp add: nextpnr_finish_def Let_def)

lemma nextpnr_finish_no_dbroot:
  "get_fasm2bels self \<Longrightarrow> self_tool_options self ''dbroot'' = None \<Longrightarrow>
   snd (nextpnr_finish self r p pk g) = Inl TypeError"
  by (simp add: nextpnr_finish_def Let_def nextpnr_fasm2bels_stages_def)

lemma vpr_stages_no_dbroot:
  "get_fasm2bels self \<Longrightarrow> self_tool_options self ''dbroot'' = None \<Longrightarrow>
   isl (snd (vpr_stages self r vendor bdo pn part ds))"
  by (simp add: vpr_stages_def Let_def vpr_fasm2bels_stages_def split: option.splits)

lemma vpr_stages_disabled:
  "\<not> get_fasm2bels self \<Longrightarrow> \<not> isl (snd (vpr_stages self r vendor (Some bd) pn part ds))"
  by (simp add: vpr_stages_def Let_def)



section \<open>The exceptions a run can end with\<close>













section \<open>The claims\<close>

text \<open>
  C1. The claim: the file loop of \<open>Nextpnr.configure_main\<close> gives every file exactly one
  destination, a role variable or \<open>unused_files\<close>; no file is dropped and none is in both.
  The code breaks it by two slips. The \<open>else\<close> that appends to \<open>unused_files\<close> belongs to
  the last \<open>if\<close>/\<open>elif\<close> chain only, so a CST, LPF, PDC, PCF or XDC file fills its variable
  and is appended as well; and the fpgaInterchangeNetlist branch never assigns \<open>netlist\<close>,
  so such a file is in no variable and not in \<open>unused_files\<close>. The theorem runs the loop
  on an XDC file and an fpgaInterchangeNetlist file under \<open>fpga_interchange\<close>: the XDC
  file is in \<open>xdc_file\<close> and in \<open>unused_files\<close>, the netlist file is nowhere.
\<close>

theorem C1_both_and_dropped:
  "classify True roles_init c1_files
     = Inr (roles_init\<lparr>xdc_file := ''top.xdc'',
                        unused_files := [\<lparr>name = ''top.xdc'', file_type = ''XDC''\<rparr>]\<rparr>)"
  by (simp add: c1_files_def classify_file_XDC classify_file_fpgaInterchangeNetlist roles_init_def)




text \<open>
  C3, as stated, fails: the file loop of \<open>Symbiflow.configure_nextpnr\<close> has no duplicate
  check. With two chip-database files the run writes its Makefile and the second file is
  the one used.
\<close>

theorem C3_counterexample:
  "\<not> isl (snd (configure_nextpnr (symbiflow_self xilinx_options) c3_src_files []))
   \<and> chipdb (nextpnr_src_files c3_src_files) = Some ''b.bba''"
  by (simp add: configure_nextpnr_def symbiflow_self_def xilinx_options_def c3_src_files_def
        nextpnr_src_files_def nextpnr_src_file_def src_roles_init_def nextpnr_main_chain_def
        direct_chain_def bitstream_stage_def bitstream_device_of_def py_in_def nextpnr_finish_def
        get_fasm2bels_def Let_def)

text \<open>
  C3, amended. In the file loop of \<open>Nextpnr.configure_main\<close>, let two files with non-empty
  names carry the same tag out of CST, PDC, PCF, XDC, QSF, or jsonNetlist on an
  architecture other than \<open>fpga_interchange\<close>. Then the loop fails with a RuntimeError
  whichever of the two comes first; and when the files up to the second of the pair raise
  nothing, the error is the duplicate error of that tag, naming the earlier file and then
  the later one. The loop of \<open>Symbiflow.configure_nextpnr\<close> raises nothing: a later file
  of a single-valued role replaces the earlier one.
\<close>

theorem C3_duplicate_role:
  assumes "checked_role ic t" "file_type f1 = t" "file_type f2 = t" "name f1 \<noteq> []" "name f2 \<noteq> []"
  shows "(\<exists>m. classify ic roles_init (pre @ f1 # mid @ f2 # post) = Inl (RuntimeError m))
       \<and> (\<exists>m. classify ic roles_init (pre @ f2 # mid @ f1 # post) = Inl (RuntimeError m))
       \<and> (\<forall>st'. classify ic roles_init (pre @ f1 # mid) = Inr st' \<longrightarrow>
             classify ic roles_init (pre @ f1 # mid @ f2 # post)
               = Inl (RuntimeError (only_one_msg (role_kind t) (name f1) (name f2))))
       \<and> (\<forall>st'. classify ic roles_init (pre @ f2 # mid) = Inr st' \<longrightarrow>
             classify ic roles_init (pre @ f2 # mid @ f1 # post)
               = Inl (RuntimeError (only_one_msg (role_kind t) (name f2) (name f1))))
       \<and> (file_type g = ''bba'' \<longrightarrow> chipdb (nextpnr_src_files (fs @ [g])) = Some (name g))
       \<and> (file_type g = ''device'' \<longrightarrow> device (nextpnr_src_files (fs @ [g])) = Some (name g))
       \<and> (file_type g = ''RRGraph'' \<longrightarrow> rr_graph (nextpnr_src_files (fs @ [g])) = Some (name g))
       \<and> (file_type g = ''VPRGrid'' \<longrightarrow> vpr_grid (nextpnr_src_files (fs @ [g])) = Some (name g))
       \<and> (file_type g = ''capnp'' \<longrightarrow> vpr_capnp_schema (nextpnr_src_files (fs @ [g])) = Some (name g))"
proof -
  have a: "\<exists>m. classify ic roles_init (pre @ f1 # mid @ f2 # post) = Inl (RuntimeError m)"
    by (rule classify_duplicate_fails[OF assms(1,2,3,4)])
  have b: "\<exists>m. classify ic roles_init (pre @ f2 # mid @ f1 # post) = Inl (RuntimeError m)"
    by (rule classify_duplicate_fails[OF assms(1,3,2,5)])
  have c: "classify ic roles_init (pre @ f1 # mid @ f2 # post)
             = Inl (RuntimeError (only_one_msg (role_kind t) (name f1) (name f2)))"
    if "classify ic roles_init (pre @ f1 # mid) = Inr st'" for st'
    by (rule classify_duplicate_exact[OF assms(1,2,3,4) that])
  have d: "classify ic roles_init (pre @ f2 # mid @ f1 # post)
             = Inl (RuntimeError (only_one_msg (role_kind t) (name f2) (name f1)))"
    if "classify ic roles_init (pre @ f2 # mid) = Inr st'" for st'
    by (rule classify_duplicate_exact[OF assms(1,3,2,5) that])
  show ?thesis using a b c d by (simp add: src_last_wins)
qed

text \<open>The theorem above at concrete inputs.\<close>

theorem C3_duplicate_role_witness:
  "checked_role False ''CST'' \<and> file_type cst_a = ''CST'' \<and> file_type cst_b = ''CST''
   \<and> name cst_a \<noteq> [] \<and> name cst_b \<noteq> []
   \<and> classify False roles_init [cst_a] = Inr (roles_init\<lparr>cst_file := ''a.cst'', unused_files := [cst_a]\<rparr>)
   \<and> classify False roles_init [cst_a, cst_b]
        = Inl (RuntimeError ''Nextpnr only supports one CST file. Found a.cst and b.cst'')
   \<and> classify False roles_init [cst_b, cst_a]
        = Inl (RuntimeError ''Nextpnr only supports one CST file. Found b.cst and a.cst'')"
proof -
  have h: "checked_role False ''CST''" "file_type cst_a = ''CST''" "file_type cst_b = ''CST''"
    "name cst_a \<noteq> []" "name cst_b \<noteq> []"
    by (simp_all add: checked_role_def cst_a_def cst_b_def)
  have one: "classify False roles_init [cst_a] = Inr (roles_init\<lparr>cst_file := ''a.cst'', unused_files := [cst_a]\<rparr>)"
    by (simp add: classify_file_CST h roles_init_def) (simp add: cst_a_def)
  have two: "classify False roles_init [cst_b] = Inr (roles_init\<lparr>cst_file := ''b.cst'', unused_files := [cst_b]\<rparr>)"
    by (simp add: classify_file_CST h roles_init_def) (simp add: cst_b_def)
  from C3_duplicate_role[OF h, of "[]" "[]" "[]"] one two h show ?thesis
    by (simp add: only_one_msg_def role_kind_def) (simp add: cst_a_def cst_b_def)
qed

text \<open>
  C4, as stated, fails: Nextpnr configures an unknown architecture to the end, and
  Symbiflow answers an unknown place-and-route tool with a log line and a normal return.
\<close>

theorem C4_counterexample:
  "\<not> isl (nextpnr_configure_main c4_self)
   \<and> symbiflow_configure_main (symbiflow_self [''pnr'' \<mapsto> ''quartus'']) [] []
       = ([''Unsupported PnR tool: quartus''], Inr None)"
  by (simp add: nextpnr_configure_main_def c4_self_def nextpnr_self_def select_arch_def
        symbiflow_configure_main_def symbiflow_self_def pnr_msg_def py_str_def Let_def)

text \<open>
  C4, amended. \<open>Symbiflow.configure_main\<close> with a \<open>pnr\<close> value other than nextpnr, vtr and
  vpr logs \<open>Unsupported PnR tool\<close> and returns: nothing is raised and nothing is written.
  \<open>Nextpnr.configure_main\<close> has no unsupported-architecture error: any architecture other
  than ecp5, mistral, nexus, gowin and fpga_interchange takes the last branch of the
  table, so when the file loop raises nothing the run completes with the command
  \<open>nextpnr-<arch>\<close> and the default target \<open><name>.asc\<close>.
\<close>

theorem C4_unsupported_selector:
  "(self_tool_options self' ''pnr'' \<noteq> Some ''nextpnr'' \<and> self_tool_options self' ''pnr'' \<noteq> Some ''vtr''
      \<and> self_tool_options self' ''pnr'' \<noteq> Some ''vpr''
    \<longrightarrow> symbiflow_configure_main self' src_files ys
          = ([pnr_msg (self_tool_options self' ''pnr'')], Inr None))
   \<and> (self_flow_config self ''arch'' = Some a
       \<and> a \<noteq> ''ecp5'' \<and> a \<noteq> ''mistral'' \<and> a \<noteq> ''nexus'' \<and> a \<noteq> ''gowin'' \<and> a \<noteq> ''fpga_interchange''
       \<and> classify False roles_init (self_files self) = Inr st
    \<longrightarrow> (\<exists>res. nextpnr_configure_main self = Inr res
           \<and> default_target (makefile res) = Some (self_name self @ ''.asc'')
           \<and> hd (command (hd (commands (makefile res)))) = Some (''nextpnr-'' @ a)))"
proof -
  have one: "symbiflow_configure_main self' src_files ys
          = ([pnr_msg (self_tool_options self' ''pnr'')], Inr None)"
    if "self_tool_options self' ''pnr'' \<noteq> Some ''nextpnr''" "self_tool_options self' ''pnr'' \<noteq> Some ''vtr''"
       "self_tool_options self' ''pnr'' \<noteq> Some ''vpr''"
    by (rule symbiflow_configure_main_unsupported[OF that])
  have two: "\<exists>res. nextpnr_configure_main self = Inr res
           \<and> default_target (makefile res) = Some (self_name self @ ''.asc'')
           \<and> hd (command (hd (commands (makefile res)))) = Some (''nextpnr-'' @ a)"
    if "self_flow_config self ''arch'' = Some a"
       "a \<noteq> ''ecp5''" "a \<noteq> ''mistral''" "a \<noteq> ''nexus''" "a \<noteq> ''gowin''" "a \<noteq> ''fpga_interchange''"
       "classify False roles_init (self_files self) = Inr st"
    using nextpnr_configure_main_default[OF that] nextpnr_write_target nextpnr_write_first_token
    by simp
  show ?thesis using one two by blast
qed

text \<open>The theorem above at concrete inputs.\<close>

theorem C4_unsupported_selector_witness:
  "self_tool_options (symbiflow_self [''pnr'' \<mapsto> ''quartus'']) ''pnr'' \<noteq> Some ''nextpnr''
   \<and> self_flow_config c4_self ''arch'' = Some ''no_such_arch''
   \<and> classify False roles_init (self_files c4_self) = Inr roles_init
   \<and> symbiflow_configure_main (symbiflow_self [''pnr'' \<mapsto> ''quartus'']) [] []
       = ([''Unsupported PnR tool: quartus''], Inr None)
   \<and> (\<exists>res. nextpnr_configure_main c4_self = Inr res
           \<and> default_target (makefile res) = Some ''top.asc''
           \<and> hd (command (hd (commands (makefile res)))) = Some ''nextpnr-no_such_arch'')"
proof -
  have h1: "self_tool_options (symbiflow_self [''pnr'' \<mapsto> ''quartus'']) ''pnr'' = Some ''quartus''"
    by (simp add: symbiflow_self_def)
  have h2: "self_flow_config c4_self ''arch'' = Some ''no_such_arch''"
    "classify False roles_init (self_files c4_self) = Inr roles_init" "self_name c4_self = ''top''"
    by (simp_all add: c4_self_def nextpnr_self_def)
  from C4_unsupported_selector[of "symbiflow_self [''pnr'' \<mapsto> ''quartus'']" "[]" "[]" c4_self
      "''no_such_arch''" roles_init] h1 h2
  show ?thesis by (simp add: pnr_msg_def py_str_def)
qed

text \<open>
  C5, as stated, fails on the quicklogic branch of \<open>configure_vpr\<close>: the default target is
  the one string \<open>top.bin top.h top.openocd.cfg\<close>, which no stage has as an output.
\<close>

theorem C5_counterexample:
  "default_target (projr (snd (configure_vpr c5_self []))) = Some ''top.bin top.h top.openocd.cfg''
   \<and> \<not> isl (snd (configure_vpr c5_self []))
   \<and> stage_outputs (projr (snd (configure_vpr c5_self [])))
       = {''top.eblif'', ''top.net'', ''top.place'', ''top.route'', ''top.fasm'', ''top.bit'',
          ''top.bin'', ''top.h'', ''top.openocd.cfg'', ''top.jlink''}
   \<and> ''top.bin top.h top.openocd.cfg'' \<notin> stage_outputs (projr (snd (configure_vpr c5_self [])))"
proof -
  have r: "snd (configure_vpr c5_self [])
     = Inr (set_default_target (quicklogic_target c5_self)
             (quicklogic_stages c5_self
               (vpr_main_chain c5_self (vpr_src_files []) (Some ''quicklogic'') ''ql-eos-s3_wlcsp''
                  (Some ''PD64'') ''ql-eos-s3'' ''wlcsp'')))"
    by (simp add: configure_vpr_def c5_self_def symbiflow_self_def quicklogic_options_def Let_def
          vpr_stages_def get_fasm2bels_def)
  have t: "self_toplevel c5_self = ''top''" by (simp add: c5_self_def symbiflow_self_def)
  show ?thesis
    by (auto simp add: r default_target_set_default_target stage_outputs_set_default_target
          stage_outputs_quicklogic_stages stage_outputs_vpr_main_chain quicklogic_target_def t)
qed

text \<open>
  C5, amended. After a completed run of \<open>Nextpnr.configure_main\<close>, of
  \<open>Symbiflow.configure_nextpnr\<close>, or of \<open>Symbiflow.configure_vpr\<close> with a vendor other than
  quicklogic, the default target is an output of a registered stage. On the quicklogic
  branch of \<open>configure_vpr\<close> the default target is the space-separated list of three
  stage outputs, \<open><top>.bin <top>.h <top>.openocd.cfg\<close>: each of the three is an output of
  a registered stage, the list itself is the output of none.
\<close>

theorem C5_default_target:
  "(nextpnr_configure_main self = Inr res
      \<longrightarrow> (\<exists>d. default_target (makefile res) = Some d \<and> d \<in> stage_outputs (makefile res)))
   \<and> (snd (configure_nextpnr self fs ys) = Inr g
      \<longrightarrow> (\<exists>d. default_target g = Some d \<and> d \<in> stage_outputs g))
   \<and> (snd (configure_vpr self fs) = Inr g' \<and> self_tool_options self ''vendor'' \<noteq> Some ''quicklogic''
      \<longrightarrow> (\<exists>d. default_target g' = Some d \<and> d \<in> stage_outputs g'))
   \<and> (snd (configure_vpr self fs) = Inr g' \<and> self_tool_options self ''vendor'' = Some ''quicklogic''
      \<longrightarrow> default_target g' = Some (quicklogic_target self)
          \<and> quicklogic_target self \<notin> stage_outputs g'
          \<and> self_toplevel self @ ''.bin'' \<in> stage_outputs g'
          \<and> self_toplevel self @ ''.h'' \<in> stage_outputs g'
          \<and> self_toplevel self @ ''.openocd.cfg'' \<in> stage_outputs g')"
proof -
  have one: "\<exists>d. default_target (makefile res) = Some d \<and> d \<in> stage_outputs (makefile res)"
    if "nextpnr_configure_main self = Inr res"
    using nextpnr_configure_main_Inr[OF that] nextpnr_write_target by blast
  have two: "\<exists>d. default_target g = Some d \<and> d \<in> stage_outputs g"
    if "snd (configure_nextpnr self fs ys) = Inr g"
  proof -
    from configure_nextpnr_Inr[OF that] obtain p pk g0 where
      mc: "nextpnr_main_chain self (nextpnr_src_files fs) p pk ys = Inr g0"
      and fin: "snd (nextpnr_finish self (nextpnr_src_files fs) p pk g0) = Inr g" by blast
    from nextpnr_main_chain_Inr[OF mc] have "self_name self @ ''.bit'' \<in> stage_outputs g0" by simp
    from nextpnr_finish_target[OF fin this] show ?thesis .
  qed
  have three: "(self_tool_options self ''vendor'' \<noteq> Some ''quicklogic''
          \<longrightarrow> (\<exists>d. default_target g' = Some d \<and> d \<in> stage_outputs g'))
       \<and> (self_tool_options self ''vendor'' = Some ''quicklogic''
          \<longrightarrow> default_target g' = Some (quicklogic_target self)
            \<and> quicklogic_target self \<notin> stage_outputs g'
            \<and> self_toplevel self @ ''.bin'' \<in> stage_outputs g'
            \<and> self_toplevel self @ ''.h'' \<in> stage_outputs g'
            \<and> self_toplevel self @ ''.openocd.cfg'' \<in> stage_outputs g')"
    if "snd (configure_vpr self fs) = Inr g'"
  proof -
    from configure_vpr_Inr[OF that] obtain bdo pn part ds where
      vs: "snd (vpr_stages self (vpr_src_files fs) (self_tool_options self ''vendor'') bdo pn part ds) = Inr g'"
      by blast
    from vpr_stages_outputs_subset[OF vs] quicklogic_target_not_path[of self]
    have "quicklogic_target self \<notin> stage_outputs g'" by (rule contra_subsetD)
    with vpr_stages_target[OF vs] show ?thesis by simp
  qed
  show ?thesis using one two three by blast
qed

text \<open>The theorem above at concrete inputs.\<close>

theorem C5_default_target_witness:
  "\<not> isl (snd (configure_vpr c5_self [])) \<and> self_tool_options c5_self ''vendor'' = Some ''quicklogic''
   \<and> \<not> isl (snd (configure_nextpnr (symbiflow_self xilinx_options) c3_src_files []))
   \<and> \<not> isl (nextpnr_configure_main c4_self)
   \<and> default_target (projr (snd (configure_vpr c5_self []))) = Some ''top.bin top.h top.openocd.cfg''
   \<and> ''top.bin'' \<in> stage_outputs (projr (snd (configure_vpr c5_self [])))
   \<and> ''top.h'' \<in> stage_outputs (projr (snd (configure_vpr c5_self [])))
   \<and> ''top.openocd.cfg'' \<in> stage_outputs (projr (snd (configure_vpr c5_self [])))
   \<and> (\<exists>d. default_target (projr (snd (configure_nextpnr (symbiflow_self xilinx_options) c3_src_files []))) = Some d
          \<and> d \<in> stage_outputs (projr (snd (configure_nextpnr (symbiflow_self xilinx_options) c3_src_files []))))
   \<and> (\<exists>d. default_target (makefile (projr (nextpnr_configure_main c4_self))) = Some d
          \<and> d \<in> stage_outputs (makefile (projr (nextpnr_configure_main c4_self))))"
proof -
  have a: "\<not> isl (snd (configure_vpr c5_self []))"
    by (simp add: configure_vpr_def c5_self_def symbiflow_self_def quicklogic_options_def Let_def
          vpr_stages_def get_fasm2bels_def)
  have b: "self_tool_options c5_self ''vendor'' = Some ''quicklogic''" "self_toplevel c5_self = ''top''"
    by (simp_all add: c5_self_def symbiflow_self_def quicklogic_options_def)
  have c: "\<not> isl (snd (configure_nextpnr (symbiflow_self xilinx_options) c3_src_files []))"
    by (simp add: configure_nextpnr_def symbiflow_self_def xilinx_options_def
        nextpnr_main_chain_def direct_chain_def bitstream_stage_def bitstream_device_of_def
        py_in_def sublist_code(3) nextpnr_finish_def get_fasm2bels_def Let_def)
  have d: "\<not> isl (nextpnr_configure_main c4_self)"
    by (simp add: nextpnr_configure_main_def c4_self_def nextpnr_self_def select_arch_def Let_def)
  from a have a': "snd (configure_vpr c5_self []) = Inr (projr (snd (configure_vpr c5_self [])))"
    by (cases "snd (configure_vpr c5_self [])") simp_all
  from c have c': "snd (configure_nextpnr (symbiflow_self xilinx_options) c3_src_files [])
       = Inr (projr (snd (configure_nextpnr (symbiflow_self xilinx_options) c3_src_files [])))"
    by (cases "snd (configure_nextpnr (symbiflow_self xilinx_options) c3_src_files [])") simp_all
  from d have d': "nextpnr_configure_main c4_self = Inr (projr (nextpnr_configure_main c4_self))"
    by (cases "nextpnr_configure_main c4_self") simp_all
  from C5_default_target[of c5_self _ "[]" _ _ "projr (snd (configure_vpr c5_self []))"] a' b
  have q: "default_target (projr (snd (configure_vpr c5_self []))) = Some (quicklogic_target c5_self)
          \<and> self_toplevel c5_self @ ''.bin'' \<in> stage_outputs (projr (snd (configure_vpr c5_self [])))
          \<and> self_toplevel c5_self @ ''.h'' \<in> stage_outputs (projr (snd (configure_vpr c5_self [])))
          \<and> self_toplevel c5_self @ ''.openocd.cfg'' \<in> stage_outputs (projr (snd (configure_vpr c5_self [])))"
    by blast
  from C5_default_target[of "symbiflow_self xilinx_options" _ c3_src_files "[]"
      "projr (snd (configure_nextpnr (symbiflow_self xilinx_options) c3_src_files []))"] c'
  have n: "\<exists>d. default_target (projr (snd (configure_nextpnr (symbiflow_self xilinx_options) c3_src_files []))) = Some d
          \<and> d \<in> stage_outputs (projr (snd (configure_nextpnr (symbiflow_self xilinx_options) c3_src_files [])))"
    by blast
  from C5_default_target[of c4_self "projr (nextpnr_configure_main c4_self)"] d'
  have m: "\<exists>d. default_target (makefile (projr (nextpnr_configure_main c4_self))) = Some d
          \<and> d \<in> stage_outputs (makefile (projr (nextpnr_configure_main c4_self)))"
    by blast
  show ?thesis using a b c d q n m by (simp add: quicklogic_target_def)
qed

text \<open>
  C6, as stated, fails: with fasm2bels enabled and neither a routing-resource graph nor a
  VPR grid file supplied, \<open>configure_vpr\<close> logs the complaint (twice) and writes its
  Makefile; no error is raised.
\<close>

theorem C6_counterexample:
  "get_fasm2bels c6_self \<and> rr_graph (vpr_src_files []) = None \<and> vpr_grid (vpr_src_files []) = None
   \<and> \<not> isl (snd (configure_vpr c6_self []))
   \<and> fst (configure_vpr c6_self []) = [fasm2bels_msg, fasm2bels_msg]"
proof -
  have o: "self_tool_options c6_self ''vendor'' = Some ''xilinx''"
    "self_tool_options c6_self ''part'' = Some ''xc7a35t''"
    "self_tool_options c6_self ''package'' = Some ''csg324-1''"
    "self_tool_options c6_self ''dbroot'' = Some ''/opt/prjxray-db''"
    "get_fasm2bels c6_self"
    by (simp_all add: c6_self_def symbiflow_self_def xilinx_options_def get_fasm2bels_def)
  have r: "rr_graph (vpr_src_files []) = None" "vpr_grid (vpr_src_files []) = None"
    by (simp_all add: vpr_src_files_def src_roles_init_def)
  have bd: "bitstream_device_of ''xc7a35t'' = Some ''artix7''"
    by (simp add: bitstream_device_of_def py_in_def sublist_code(3))
  have s: "\<not> isl (snd (configure_vpr c6_self []))"
    by (simp add: configure_vpr_xilinx[OF o(1,2,3)] bd vpr_stages_def o vpr_fasm2bels_stages_def Let_def)
  have l: "fst (configure_vpr c6_self []) = [fasm2bels_msg, fasm2bels_msg]"
    by (simp add: fst_configure_vpr o vpr_option_log_def py_not_def fasm2bels_log_msg r)
  show ?thesis using o r s l by simp
qed

text \<open>
  C6, amended. With fasm2bels enabled and the routing-resource graph, the VPR grid or the
  database root absent, \<open>configure_vpr\<close> (with \<open>part\<close> and \<open>package\<close> given) and
  \<open>configure_nextpnr\<close> (once the bitstream stage is built) log \<open>When using fasm2bels,
  rr_graph, vpr_grid and database root must be provided\<close> and raise no RuntimeError; with
  the database root absent the run does not complete. With fasm2bels disabled the message
  is never logged and the three inputs are not consulted: \<open>configure_vpr\<close> for xilinx with
  a known part and a package completes, and \<open>configure_nextpnr\<close> completes with the
  bitstream as default target once the bitstream stage is built.
\<close>

theorem C6_fasm2bels:
  "(get_fasm2bels self
      \<and> (rr_graph (vpr_src_files fs) = None \<or> vpr_grid (vpr_src_files fs) = None
          \<or> self_tool_options self ''dbroot'' = None)
      \<and> self_tool_options self ''part'' = Some p \<and> self_tool_options self ''package'' = Some pk
    \<longrightarrow> fasm2bels_msg \<in> set (fst (configure_vpr self fs))
        \<and> (\<forall>m. snd (configure_vpr self fs) \<noteq> Inl (RuntimeError m)))
   \<and> (get_fasm2bels self
      \<and> (rr_graph (nextpnr_src_files fs) = None \<or> vpr_grid (nextpnr_src_files fs) = None
          \<or> self_tool_options self ''dbroot'' = None)
      \<and> self_tool_options self ''part'' = Some p \<and> self_tool_options self ''package'' = Some pk
      \<and> nextpnr_main_chain self (nextpnr_src_files fs) p pk ys = Inr g
    \<longrightarrow> fasm2bels_msg \<in> set (fst (configure_nextpnr self fs ys))
        \<and> (\<forall>m. snd (configure_nextpnr self fs ys) \<noteq> Inl (RuntimeError m)))
   \<and> (get_fasm2bels self \<and> self_tool_options self ''dbroot'' = None
    \<longrightarrow> isl (snd (configure_vpr self fs)) \<and> isl (snd (configure_nextpnr self fs ys)))
   \<and> (\<not> get_fasm2bels self
    \<longrightarrow> fasm2bels_msg \<notin> set (fst (configure_vpr self fs))
        \<and> fasm2bels_msg \<notin> set (fst (configure_nextpnr self fs ys)))
   \<and> (\<not> get_fasm2bels self \<and> self_tool_options self ''vendor'' = Some ''xilinx''
      \<and> self_tool_options self ''part'' = Some p \<and> self_tool_options self ''package'' = Some pk
      \<and> bitstream_device_of p \<noteq> None
    \<longrightarrow> \<not> isl (snd (configure_vpr self fs)))
   \<and> (\<not> get_fasm2bels self
      \<and> self_tool_options self ''part'' = Some p \<and> self_tool_options self ''package'' = Some pk
      \<and> nextpnr_main_chain self (nextpnr_src_files fs) p pk ys = Inr g
    \<longrightarrow> snd (configure_nextpnr self fs ys) = Inr (set_default_target (self_name self @ ''.bit'') g))"
proof -
  let ?d = "self_tool_options self ''dbroot''"
  have a: "fasm2bels_msg \<in> set (fst (configure_vpr self fs))"
    if "get_fasm2bels self"
      "rr_graph (vpr_src_files fs) = None \<or> vpr_grid (vpr_src_files fs) = None \<or> ?d = None"
      "self_tool_options self ''part'' = Some p" "self_tool_options self ''package'' = Some pk"
    using that(1,3,4) by (simp add: fst_configure_vpr fasm2bels_log_msg[OF that(2)])
  have b: "fasm2bels_msg \<in> set (fst (configure_nextpnr self fs ys))"
    if "get_fasm2bels self"
      "rr_graph (nextpnr_src_files fs) = None \<or> vpr_grid (nextpnr_src_files fs) = None \<or> ?d = None"
      "self_tool_options self ''part'' = Some p" "self_tool_options self ''package'' = Some pk"
      "nextpnr_main_chain self (nextpnr_src_files fs) p pk ys = Inr g"
    using that(1,3,4,5) by (simp add: fst_configure_nextpnr fasm2bels_log_msg[OF that(2)])
  have c1: "isl (snd (configure_vpr self fs))" if "get_fasm2bels self" "?d = None"
    using that by (simp add: configure_vpr_def Let_def vpr_stages_no_dbroot split: option.splits)
  have c2: "isl (snd (configure_nextpnr self fs ys))" if "get_fasm2bels self" "?d = None"
    using that
    by (simp add: configure_nextpnr_def Let_def nextpnr_finish_no_dbroot split: option.splits sum.splits)
  have d1: "fasm2bels_msg \<notin> set (fst (configure_vpr self fs))" if "\<not> get_fasm2bels self"
    using that by (simp add: fst_configure_vpr fasm2bels_msg_not_option_log)
  have d2: "fasm2bels_msg \<notin> set (fst (configure_nextpnr self fs ys))" if "\<not> get_fasm2bels self"
    using that
    by (simp add: fst_configure_nextpnr fasm2bels_msg_not_option_log split: option.splits sum.splits)
  have e: "\<not> isl (snd (configure_vpr self fs))"
    if "\<not> get_fasm2bels self" "self_tool_options self ''vendor'' = Some ''xilinx''"
      "self_tool_options self ''part'' = Some p" "self_tool_options self ''package'' = Some pk"
      "bitstream_device_of p \<noteq> None"
  proof -
    from that(5) obtain bd where "bitstream_device_of p = Some bd" by auto
    then show ?thesis
      by (simp add: configure_vpr_xilinx[OF that(2,3,4)] vpr_stages_disabled[OF that(1)])
  qed
  have f: "snd (configure_nextpnr self fs ys) = Inr (set_default_target (self_name self @ ''.bit'') g)"
    if "\<not> get_fasm2bels self"
      "self_tool_options self ''part'' = Some p" "self_tool_options self ''package'' = Some pk"
      "nextpnr_main_chain self (nextpnr_src_files fs) p pk ys = Inr g"
    using that(4) by (simp add: snd_configure_nextpnr[OF that(2,3)] nextpnr_finish_disabled[OF that(1)])
  show ?thesis
    using a b c1 c2 d1 d2 e f configure_vpr_no_RuntimeError configure_nextpnr_no_RuntimeError
    by blast
qed

text \<open>The theorem above at concrete inputs.\<close>

theorem C6_fasm2bels_witness:
  "get_fasm2bels c6_self \<and> rr_graph (vpr_src_files []) = None
   \<and> self_tool_options c6_self ''part'' = Some ''xc7a35t''
   \<and> self_tool_options c6_self ''package'' = Some ''csg324-1''
   \<and> fasm2bels_msg \<in> set (fst (configure_vpr c6_self []))
   \<and> fasm2bels_msg \<in> set (fst (configure_nextpnr c6_self [] []))
   \<and> get_fasm2bels c6_no_dbroot \<and> self_tool_options c6_no_dbroot ''dbroot'' = None
   \<and> isl (snd (configure_vpr c6_no_dbroot [])) \<and> isl (snd (configure_nextpnr c6_no_dbroot [] []))
   \<and> \<not> get_fasm2bels (symbiflow_self xilinx_options)
   \<and> fasm2bels_msg \<notin> set (fst (configure_vpr (symbiflow_self xilinx_options) []))
   \<and> fasm2bels_msg \<notin> set (fst (configure_nextpnr (symbiflow_self xilinx_options) [] []))
   \<and> \<not> isl (snd (configure_vpr (symbiflow_self xilinx_options) []))
   \<and> \<not> isl (snd (configure_nextpnr (symbiflow_self xilinx_options) [] []))"
proof -
  let ?x = "symbiflow_self xilinx_options"
  have o: "self_tool_options c6_self ''part'' = Some ''xc7a35t''"
    "self_tool_options c6_self ''package'' = Some ''csg324-1''"
    "self_tool_options c6_self ''arch'' = Some ''xilinx''"
    "get_fasm2bels c6_self"
    by (simp_all add: c6_self_def symbiflow_self_def xilinx_options_def get_fasm2bels_def)
  have n: "get_fasm2bels c6_no_dbroot" "self_tool_options c6_no_dbroot ''dbroot'' = None"
    by (simp_all add: c6_no_dbroot_def symbiflow_self_def xilinx_options_def get_fasm2bels_def)
  have x: "\<not> get_fasm2bels ?x" "self_tool_options ?x ''vendor'' = Some ''xilinx''"
    "self_tool_options ?x ''part'' = Some ''xc7a35t''" "self_tool_options ?x ''package'' = Some ''csg324-1''"
    "self_tool_options ?x ''arch'' = Some ''xilinx''"
    by (simp_all add: symbiflow_self_def xilinx_options_def get_fasm2bels_def)
  have r: "rr_graph (vpr_src_files []) = None" "rr_graph (nextpnr_src_files []) = None"
    by (simp_all add: vpr_src_files_def nextpnr_src_files_def src_roles_init_def)
  have bd: "bitstream_device_of ''xc7a35t'' \<noteq> None"
    by (simp add: bitstream_device_of_def py_in_def sublist_code(3))
  have mc: "\<not> isl (nextpnr_main_chain s (nextpnr_src_files []) ''xc7a35t'' ''csg324-1'' [])"
    if "self_tool_options s ''arch'' = Some ''xilinx''" for s
    using that
    by (simp add: nextpnr_main_chain_def direct_chain_def bitstream_stage_def bitstream_device_of_def
          py_in_def sublist_code(3) Let_def)
  have mc1: "nextpnr_main_chain c6_self (nextpnr_src_files []) ''xc7a35t'' ''csg324-1'' []
       = Inr (projr (nextpnr_main_chain c6_self (nextpnr_src_files []) ''xc7a35t'' ''csg324-1'' []))"
    using mc[OF o(3)] by (cases "nextpnr_main_chain c6_self (nextpnr_src_files []) ''xc7a35t'' ''csg324-1'' []") simp_all
  have mc2: "nextpnr_main_chain ?x (nextpnr_src_files []) ''xc7a35t'' ''csg324-1'' []
       = Inr (projr (nextpnr_main_chain ?x (nextpnr_src_files []) ''xc7a35t'' ''csg324-1'' []))"
    using mc[OF x(5)] by (cases "nextpnr_main_chain ?x (nextpnr_src_files []) ''xc7a35t'' ''csg324-1'' []") simp_all
  from C6_fasm2bels[of c6_self "[]" "''xc7a35t''" "''csg324-1''" "[]"
      "projr (nextpnr_main_chain c6_self (nextpnr_src_files []) ''xc7a35t'' ''csg324-1'' [])"] o r mc1
  have e1: "fasm2bels_msg \<in> set (fst (configure_vpr c6_self []))"
    "fasm2bels_msg \<in> set (fst (configure_nextpnr c6_self [] []))" by blast+
  from C6_fasm2bels[of c6_no_dbroot "[]" _ _ "[]"] n
  have e2: "isl (snd (configure_vpr c6_no_dbroot []))" "isl (snd (configure_nextpnr c6_no_dbroot [] []))"
    by blast+
  from C6_fasm2bels[of ?x "[]" "''xc7a35t''" "''csg324-1''" "[]"
      "projr (nextpnr_main_chain ?x (nextpnr_src_files []) ''xc7a35t'' ''csg324-1'' [])"] x bd mc2
  have e3: "fasm2bels_msg \<notin> set (fst (configure_vpr ?x []))"
    "fasm2bels_msg \<notin> set (fst (configure_nextpnr ?x [] []))"
    "\<not> isl (snd (configure_vpr ?x []))"
    "snd (configure_nextpnr ?x [] []) = Inr (set_default_target (self_name ?x @ ''.bit'')
        (projr (nextpnr_main_chain ?x (nextpnr_src_files []) ''xc7a35t'' ''csg324-1'' [])))"
    by blast+
  show ?thesis using o n x r e1 e2 e3 by simp
qed

text \<open>
  C7, as stated, fails: \<open>Symbiflow.configure_nextpnr\<close> without \<open>package\<close> ends in a
  TypeError (\<open>part + package\<close>), not in a missing-option error.
\<close>

theorem C7_counterexample:
  "snd (configure_nextpnr (symbiflow_self no_package_options) c3_src_files []) = Inl TypeError"
  by (simp add: configure_nextpnr_def symbiflow_self_def no_package_options_def Let_def)

text \<open>
  C7, amended. \<open>Nextpnr.configure_main\<close> for mistral, nexus or gowin with \<open>device\<close> absent
  (or empty) raises, once the file loop has raised nothing, the RuntimeError
  \<open>Missing required option 'device' for nextpnr-<arch>\<close>, which names the key.
  \<open>Symbiflow.configure_nextpnr\<close> with \<open>part\<close> or \<open>package\<close> absent logs
  \<open>Missing required "part" parameter\<close>, respectively \<open>"package"\<close>, goes on, and ends in a
  TypeError where the absent value is used as a string.
\<close>

theorem C7_missing_identifier:
  "(self_flow_config self ''arch'' = Some a \<and> (a = ''mistral'' \<or> a = ''nexus'' \<or> a = ''gowin'')
      \<and> py_not (self_tool_options self ''device'')
      \<and> classify False roles_init (self_files self) = Inr st
    \<longrightarrow> nextpnr_configure_main self = Inl (RuntimeError (missing_device_msg a))
        \<and> sublist ''device'' (missing_device_msg a))
   \<and> (self_tool_options self' ''part'' = None
    \<longrightarrow> part_msg \<in> set (fst (configure_nextpnr self' fs ys))
        \<and> snd (configure_nextpnr self' fs ys) = Inl TypeError)
   \<and> (self_tool_options self' ''package'' = None
    \<longrightarrow> package_msg \<in> set (fst (configure_nextpnr self' fs ys))
        \<and> snd (configure_nextpnr self' fs ys) = Inl TypeError)"
proof -
  have one: "nextpnr_configure_main self = Inl (RuntimeError (missing_device_msg a))"
    if "self_flow_config self ''arch'' = Some a" "a = ''mistral'' \<or> a = ''nexus'' \<or> a = ''gowin''"
       "py_not (self_tool_options self ''device'')" "classify False roles_init (self_files self) = Inr st"
  proof -
    from that(2) have ni: "a \<noteq> ''fpga_interchange''" by auto
    show ?thesis using that(4) ni
      by (simp add: nextpnr_configure_main_arch[OF that(1)] select_arch_device_missing[OF that(2,3)])
  qed
  have two: "part_msg \<in> set (fst (configure_nextpnr self' fs ys))"
    if "self_tool_options self' ''part'' = None"
    using option_log_subset[of self' fs ys] option_log_msgs(3)[of self'] that
    by (auto simp: py_not_def)
  have three: "package_msg \<in> set (fst (configure_nextpnr self' fs ys))"
    if "self_tool_options self' ''package'' = None"
    using option_log_subset[of self' fs ys] option_log_msgs(2)[of self'] that
    by (auto simp: py_not_def)
  show ?thesis
    using one two three missing_device_msg_names_key configure_nextpnr_no_part configure_nextpnr_no_package
    by blast
qed

text \<open>The theorem above at concrete inputs.\<close>

theorem C7_missing_identifier_witness:
  "self_flow_config c7_self ''arch'' = Some ''gowin'' \<and> py_not (self_tool_options c7_self ''device'')
   \<and> classify False roles_init (self_files c7_self) = Inr roles_init
   \<and> self_tool_options (symbiflow_self no_package_options) ''package'' = None
   \<and> self_tool_options (symbiflow_self Map.empty) ''part'' = None
   \<and> nextpnr_configure_main c7_self
        = Inl (RuntimeError (''Missing required option '' @ [CHR 0x27] @ ''device'' @ [CHR 0x27] @ '' for nextpnr-gowin''))
   \<and> package_msg \<in> set (fst (configure_nextpnr (symbiflow_self no_package_options) [] []))
   \<and> snd (configure_nextpnr (symbiflow_self no_package_options) [] []) = Inl TypeError
   \<and> part_msg \<in> set (fst (configure_nextpnr (symbiflow_self Map.empty) [] []))
   \<and> snd (configure_nextpnr (symbiflow_self Map.empty) [] []) = Inl TypeError"
proof -
  have h: "self_flow_config c7_self ''arch'' = Some ''gowin''" "py_not (self_tool_options c7_self ''device'')"
    "classify False roles_init (self_files c7_self) = Inr roles_init"
    by (simp_all add: c7_self_def nextpnr_self_def py_not_def)
  have k: "self_tool_options (symbiflow_self no_package_options) ''package'' = None"
    "self_tool_options (symbiflow_self Map.empty) ''part'' = None"
    by (simp_all add: symbiflow_self_def no_package_options_def)
  from C7_missing_identifier[of c7_self "''gowin''" roles_init "symbiflow_self no_package_options" "[]" "[]"]
       C7_missing_identifier[of c7_self "''gowin''" roles_init "symbiflow_self Map.empty" "[]" "[]"] h k
  show ?thesis by (simp add: missing_device_msg_def)
qed

text \<open>
  C8, as stated, fails: under \<open>fpga_interchange\<close> without a chip database, a JSON netlist
  is never looked at. The run ends in the chip-database error, which names no file.
\<close>

theorem C8_counterexample:
  "nextpnr_configure_main c8_self = Inl (RuntimeError chipdb_msg)
   \<and> chipdb_msg \<noteq> mismatch_msg True ''top.json''
   \<and> \<not> sublist ''top.json'' chipdb_msg"
  by (simp add: nextpnr_configure_main_def c8_self_def nextpnr_self_def chipdb_msg_def
        mismatch_msg_def json_mismatch_msg_def sublist_code(3))

text \<open>
  C8, amended. A file list that holds a JSON netlist under \<open>fpga_interchange\<close>, or an
  fpga-interchange netlist under any other architecture, always makes
  \<open>Nextpnr.configure_main\<close> fail with a RuntimeError. The error is the format-mismatch
  error, whose message states the required format and ends with the name of the offending
  file, when no earlier check fails: the chip database is given under \<open>fpga_interchange\<close>,
  the files before it raise nothing, and no netlist has been taken before it.
\<close>

theorem C8_format_mismatch:
  assumes "self_flow_config self ''arch'' = Some a"
    and "mismatched (a = ''fpga_interchange'') f"
  shows "(f \<in> set (self_files self) \<longrightarrow> (\<exists>m. nextpnr_configure_main self = Inl (RuntimeError m)))
       \<and> (self_files self = pre @ f # post
            \<and> (a = ''fpga_interchange'' \<longrightarrow> self_tool_options self ''chipdb'' \<noteq> None)
            \<and> classify (a = ''fpga_interchange'') roles_init pre = Inr st \<and> netlist st = []
          \<longrightarrow> nextpnr_configure_main self
                = Inl (RuntimeError (mismatch_msg (a = ''fpga_interchange'') (name f)))
              \<and> suffix (name f) (mismatch_msg (a = ''fpga_interchange'') (name f)))"
proof -
  have one: "\<exists>m. nextpnr_configure_main self = Inl (RuntimeError m)" if "f \<in> set (self_files self)"
  proof -
    from classify_mismatched[OF that assms(2), of roles_init]
    obtain m where "classify (a = ''fpga_interchange'') roles_init (self_files self) = Inl (RuntimeError m)"
      by blast
    then show ?thesis by (simp add: nextpnr_configure_main_arch[OF assms(1)])
  qed
  have two: "nextpnr_configure_main self = Inl (RuntimeError (mismatch_msg (a = ''fpga_interchange'') (name f)))"
    if "self_files self = pre @ f # post"
      and "a = ''fpga_interchange'' \<longrightarrow> self_tool_options self ''chipdb'' \<noteq> None"
      and "classify (a = ''fpga_interchange'') roles_init pre = Inr st" and "netlist st = []"
  proof -
    from classify_mismatched_exact[OF assms(2) that(3,4), of post] that(1)
    have "classify (a = ''fpga_interchange'') roles_init (self_files self)
            = Inl (RuntimeError (mismatch_msg (a = ''fpga_interchange'') (name f)))" by simp
    with that(2) show ?thesis by (auto simp add: nextpnr_configure_main_arch[OF assms(1)])
  qed
  show ?thesis using one two mismatch_msg_names_file by blast
qed

text \<open>The theorem above at concrete inputs.\<close>

theorem C8_format_mismatch_witness:
  "self_flow_config c8_self_chipdb ''arch'' = Some ''fpga_interchange''
   \<and> mismatched True \<lparr>name = ''top.json'', file_type = ''jsonNetlist''\<rparr>
   \<and> nextpnr_configure_main c8_self_chipdb
       = Inl (RuntimeError ''Nextpnr-fpga_interchange requires fpga-interchange logical netlist instead of JSON, foundtop.json'')"
proof -
  let ?f = "\<lparr>name = ''top.json'', file_type = ''jsonNetlist''\<rparr>"
  have h1: "self_flow_config c8_self_chipdb ''arch'' = Some ''fpga_interchange''"
    by (simp add: c8_self_chipdb_def nextpnr_self_def)
  have h2: "mismatched (''fpga_interchange'' = ''fpga_interchange'') ?f"
    by (simp add: mismatched_def)
  have h3: "self_files c8_self_chipdb = [] @ ?f # []"
    by (simp add: c8_self_chipdb_def nextpnr_self_def)
  have h4: "self_tool_options c8_self_chipdb ''chipdb'' \<noteq> None"
    by (simp add: c8_self_chipdb_def nextpnr_self_def)
  have h5: "classify True roles_init [] = Inr roles_init" "netlist roles_init = []"
    by (simp_all add: roles_init_def)
  from C8_format_mismatch[OF h1 h2, of "[]" "[]" roles_init] h3 h4 h5 h1 h2
  show ?thesis by (simp add: mismatch_msg_def json_mismatch_msg_def)
qed



text \<open>
  C10, as stated, fails: under \<open>fpga_interchange\<close> with no XDC file and \<open>package\<close> absent,
  the run ends in the TypeError of \<open>part + package\<close> (line 208) and never reaches the
  assertion of line 236.
\<close>

theorem C10_counterexample:
  "self_tool_options (symbiflow_self interchange_no_package_options) ''arch'' = Some ''fpga_interchange''
   \<and> length (filter (\<lambda>f. file_type f = ''xdc'') []) = 0
   \<and> snd (configure_nextpnr (symbiflow_self interchange_no_package_options) [] []) = Inl TypeError
   \<and> snd (configure_nextpnr (symbiflow_self interchange_no_package_options) [] []) \<noteq> Inl AssertionError"
  by (simp add: configure_nextpnr_def symbiflow_self_def interchange_no_package_options_def Let_def)

text \<open>
  C10, amended. In \<open>Symbiflow.configure_nextpnr\<close> with \<open>arch\<close> \<open>fpga_interchange\<close> the
  assertion \<open>len(xdcs) == 2\<close> holds exactly when exactly one file of type \<open>xdc\<close> is
  supplied. When \<open>part\<close> and \<open>package\<close> are given the run reaches the assertion: with no
  XDC file, or with two or more, it ends in AssertionError, and with exactly one it does
  not. When \<open>part\<close> or \<open>package\<close> is absent the run ends in a TypeError before the
  assertion, whatever the number of XDC files.
\<close>

theorem C10_xdc_assertion:
  assumes "self_tool_options self ''arch'' = Some ''fpga_interchange''"
  shows "(length (xdc_flags (placement_constraints (nextpnr_src_files src_files))) = 2
            \<longleftrightarrow> length (filter (\<lambda>f. file_type f = ''xdc'') src_files) = 1)
       \<and> (self_tool_options self ''part'' = Some p \<and> self_tool_options self ''package'' = Some pk
            \<and> length (filter (\<lambda>f. file_type f = ''xdc'') src_files) \<noteq> 1
            \<longrightarrow> snd (configure_nextpnr self src_files yosys_commands) = Inl AssertionError)
       \<and> (self_tool_options self ''part'' = Some p \<and> self_tool_options self ''package'' = Some pk
            \<and> length (filter (\<lambda>f. file_type f = ''xdc'') src_files) = 1
            \<longrightarrow> snd (configure_nextpnr self src_files yosys_commands) \<noteq> Inl AssertionError)
       \<and> (self_tool_options self ''part'' = None \<or> self_tool_options self ''package'' = None
            \<longrightarrow> snd (configure_nextpnr self src_files yosys_commands) = Inl TypeError)"
proof -
  let ?n = "length (filter (\<lambda>f. file_type f = ''xdc'') src_files)"
  let ?r = "nextpnr_src_files src_files"
  let ?x = "xdc_flags (placement_constraints ?r)"
  have len: "length ?x = 2 * ?n"
    by (simp add: length_xdc_flags placement_constraints_nextpnr_src_files)
  have a: "length ?x = 2 \<longleftrightarrow> ?n = 1" using len by auto
  have b: "snd (configure_nextpnr self src_files yosys_commands) = Inl AssertionError"
    if pp: "self_tool_options self ''part'' = Some p" "self_tool_options self ''package'' = Some pk"
      and "?n \<noteq> 1"
  proof -
    from that(3) a have "length ?x \<noteq> 2" by simp
    then have "nextpnr_main_chain self ?r p pk yosys_commands = Inl AssertionError"
      using assms by (simp add: nextpnr_main_chain_def Let_def interchange_chain_assert bind_exc_def)
    then show ?thesis by (simp add: snd_configure_nextpnr[OF pp])
  qed
  have c: "snd (configure_nextpnr self src_files yosys_commands) \<noteq> Inl AssertionError"
    if pp: "self_tool_options self ''part'' = Some p" "self_tool_options self ''package'' = Some pk"
      and "?n = 1"
  proof -
    from that(3) a have l2: "length ?x = 2" by simp
    have "nextpnr_main_chain self ?r p pk yosys_commands \<noteq> Inl AssertionError"
      unfolding nextpnr_main_chain_def Let_def
      by (rule bind_exc_neq) (simp_all add: assms interchange_chain_no_assert[OF l2] bitstream_stage_no_assert)
    then show ?thesis
      by (auto simp add: snd_configure_nextpnr[OF pp] nextpnr_finish_no_assert split: sum.splits)
  qed
  have d: "snd (configure_nextpnr self src_files yosys_commands) = Inl TypeError"
    if "self_tool_options self ''part'' = None \<or> self_tool_options self ''package'' = None"
    using that configure_nextpnr_no_part configure_nextpnr_no_package by blast
  show ?thesis using a b c d by blast
qed

text \<open>The theorem above at concrete inputs.\<close>

theorem C10_xdc_assertion_witness:
  "self_tool_options (symbiflow_self interchange_options) ''arch'' = Some ''fpga_interchange''
   \<and> self_tool_options (symbiflow_self interchange_options) ''part'' = Some ''xc7a35t''
   \<and> self_tool_options (symbiflow_self interchange_options) ''package'' = Some ''csg324-1''
   \<and> self_tool_options (symbiflow_self interchange_no_package_options) ''arch'' = Some ''fpga_interchange''
   \<and> self_tool_options (symbiflow_self interchange_no_package_options) ''package'' = None
   \<and> snd (configure_nextpnr (symbiflow_self interchange_options) [] []) = Inl AssertionError
   \<and> snd (configure_nextpnr (symbiflow_self interchange_options) c3_src_files []) \<noteq> Inl AssertionError
   \<and> snd (configure_nextpnr (symbiflow_self interchange_no_package_options) [] []) = Inl TypeError"
proof -
  have h: "self_tool_options (symbiflow_self interchange_options) ''arch'' = Some ''fpga_interchange''"
    "self_tool_options (symbiflow_self interchange_options) ''part'' = Some ''xc7a35t''"
    "self_tool_options (symbiflow_self interchange_options) ''package'' = Some ''csg324-1''"
    by (simp_all add: symbiflow_self_def interchange_options_def)
  have k: "self_tool_options (symbiflow_self interchange_no_package_options) ''arch'' = Some ''fpga_interchange''"
    "self_tool_options (symbiflow_self interchange_no_package_options) ''package'' = None"
    by (simp_all add: symbiflow_self_def interchange_no_package_options_def)
  from C10_xdc_assertion[OF h(1), of "[]" "''xc7a35t''" "''csg324-1''" "[]"]
       C10_xdc_assertion[OF h(1), of c3_src_files "''xc7a35t''" "''csg324-1''" "[]"]
       C10_xdc_assertion[OF k(1), of "[]" _ _ "[]"] h k
  show ?thesis by (simp add: c3_src_files_def)
qed

end
